theory Spec2Isabelle
  imports Main
begin

section \<open>JavaScript values used by the engagement layer\<close>

text \<open>
  An optional number (\<^verbatim>\<open>likes_count?: number\<close>, or the result of \<^verbatim>\<open>Map.get\<close>) is an
  \<open>int option\<close>, \<open>None\<close> standing for \<^verbatim>\<open>undefined\<close>/\<^verbatim>\<open>null\<close>. The operator \<^verbatim>\<open>a || b\<close>
  yields \<^verbatim>\<open>a\<close> when \<^verbatim>\<open>a\<close> is truthy and \<^verbatim>\<open>b\<close> otherwise; a number is truthy when it is
  not zero, a missing value never is. The counters are integer columns and sums of ones,
  so a number is an \<open>int\<close>.
\<close>

definition truthy_num :: "int option \<Rightarrow> bool" where
  "truthy_num v = (case v of None \<Rightarrow> False | Some n \<Rightarrow> n \<noteq> 0)"

definition truthy_bool :: "bool option \<Rightarrow> bool" where
  "truthy_bool v = (case v of None \<Rightarrow> False | Some b \<Rightarrow> b)"

definition or_num :: "int option \<Rightarrow> int option \<Rightarrow> int option" where
  "or_num a b = (if truthy_num a then a else b)"

text \<open>\<^verbatim>\<open>a || 0\<close> on an optional number.\<close>

definition or_zero :: "int option \<Rightarrow> int" where
  "or_zero a = (case a of None \<Rightarrow> 0 | Some n \<Rightarrow> if n \<noteq> 0 then n else 0)"

text \<open>\<^verbatim>\<open>xs || []\<close> on an optional array (an empty array is truthy).\<close>

definition or_empty :: "'a list option \<Rightarrow> 'a list" where
  "or_empty xs = (case xs of None \<Rightarrow> [] | Some ys \<Rightarrow> ys)"

text \<open>
  A supabase query resolves to \<^verbatim>\<open>{ data, error }\<close>: either an error with \<^verbatim>\<open>data = null\<close>,
  or no error with the rows, or no error and \<^verbatim>\<open>data = null\<close>. The client is created
  without \<^verbatim>\<open>throwOnError\<close>, so an awaited query never rejects.
\<close>

datatype 'a response = Failed string | NoData | Rows "'a list"

fun data_of :: "'a response \<Rightarrow> 'a list option" where
  "data_of (Failed e) = None"
| "data_of NoData = None"
| "data_of (Rows xs) = Some xs"

fun error_of :: "'a response \<Rightarrow> string option" where
  "error_of (Failed e) = Some e"
| "error_of NoData = None"
| "error_of (Rows xs) = None"

section \<open>The Media page: state\<close>

text \<open>
  \<^verbatim>\<open>interface MediaItem\<close> of \<^verbatim>\<open>src/pages/Media.tsx\<close>. The fields the engagement layer reads
  or writes are named; every other field of a row (title, thumbnail, counters ...) lives
  in the record's extension, which the object spread \<^verbatim>\<open>{ ...item, ... }\<close> carries along
  unchanged. The field \<^verbatim>\<open>id\<close> is called \<open>item_id\<close>, as \<open>id\<close> is the identity function.
\<close>

record MediaItem =
  item_id :: string
  creator_name :: string
  likes_count :: "int option"
  is_liked :: "bool option"
  is_following :: "bool option"

text \<open>
  What the component does to the outside world, in the order it does it: the backend
  queries and writes it issues, and the calls of \<^verbatim>\<open>console.error\<close>, \<^verbatim>\<open>alert\<close> and
  \<^verbatim>\<open>navigate\<close>.
\<close>

datatype effect =
    SelectMediaContent string
  | SelectAllLikes
  | SelectUserLikes string
  | SelectUserFollows string
  | DeleteLike string string
  | InsertLike string string
  | DeleteFollow string string
  | InsertFollow string string
  | ConsoleError string
  | Alert string
  | Navigate string

text \<open>
  The component's state: the three \<^verbatim>\<open>useState\<close> cells the layer owns, the ref
  \<^verbatim>\<open>fetchInProgressRef.current\<close>, and the effects issued so far.
\<close>

record 'z MediaState =
  mediaContent :: "'z MediaItem_scheme list"
  loading :: bool
  error :: "string option"
  fetchInProgressRef :: bool
  effects :: "effect list"

text \<open>The answers of the backend to the four reads of one fetch cycle.\<close>

record 'z FetchReplies =
  mediaReply :: "'z MediaItem_scheme response"
  allLikesReply :: "string response"
  userLikesReply :: "string response"
  userFollowsReply :: "string response"

section \<open>Enrichment (\<^verbatim>\<open>fetchMediaContent\<close>, lines 137 to 151)\<close>

text \<open>
  A row of \<^verbatim>\<open>select('media_id')\<close> is its \<^verbatim>\<open>media_id\<close>, a row of
  \<^verbatim>\<open>select('creator_name')\<close> its \<^verbatim>\<open>creator_name\<close>. The \<^verbatim>\<open>forEach\<close> over the like rows
  fills the \<^verbatim>\<open>Map\<close> from left to right.
\<close>

definition count_like :: "string \<Rightarrow> (string \<rightharpoonup> int) \<Rightarrow> (string \<rightharpoonup> int)" where
  "count_like like m = m(like \<mapsto> or_zero (m like) + 1)"

definition likesCountMap :: "string list \<Rightarrow> (string \<rightharpoonup> int)" where
  "likesCountMap allLikes = fold count_like allLikes Map.empty"

definition enrich ::
  "(string \<rightharpoonup> int) \<Rightarrow> string set \<Rightarrow> string set \<Rightarrow> 'z MediaItem_scheme \<Rightarrow> 'z MediaItem_scheme" where
  "enrich countMap userLikesSet userFollowsSet item =
     item\<lparr>likes_count := Some (or_zero (or_num (countMap (item_id item)) (likes_count item))),
          is_liked := Some (item_id item \<in> userLikesSet),
          is_following := Some (creator_name item \<in> userFollowsSet)\<rparr>"

definition enrichedData ::
  "'z MediaItem_scheme list \<Rightarrow> string list option \<Rightarrow> string list \<Rightarrow> string list
     \<Rightarrow> 'z MediaItem_scheme list" where
  "enrichedData mediaData allLikes userLikes userFollows =
     map (enrich (likesCountMap (or_empty allLikes)) (set userLikes) (set userFollows)) mediaData"

section \<open>\<^verbatim>\<open>fetchMediaContent\<close>\<close>

text \<open>The viewer's own rows: kept when the read reported no error, \<^verbatim>\<open>[]\<close> otherwise.\<close>

definition viewer_rows :: "string response \<Rightarrow> string list" where
  "viewer_rows r = (if error_of r = None then or_empty (data_of r) else [])"

definition catch_fetch :: "string \<Rightarrow> 'z MediaState \<Rightarrow> 'z MediaState" where
  "catch_fetch e st =
     st\<lparr>effects := effects st @ [ConsoleError ''Error fetching media:''],
        error := Some ''Failed to load media content. Please try again.'',
        mediaContent := []\<rparr>"

definition finally_fetch :: "'z MediaState \<Rightarrow> 'z MediaState" where
  "finally_fetch st = st\<lparr>fetchInProgressRef := False, loading := False\<rparr>"

definition issue :: "effect \<Rightarrow> 'z MediaState \<Rightarrow> 'z MediaState" where
  "issue c st = st\<lparr>effects := effects st @ [c]\<rparr>"

definition fetchMediaContent ::
  "string option \<Rightarrow> string \<Rightarrow> 'z FetchReplies \<Rightarrow> 'z MediaState \<Rightarrow> 'z MediaState" where
  "fetchMediaContent user activeTab r st =
     (if fetchInProgressRef st then st
      else
        let st1 = issue (SelectMediaContent activeTab)
                    (st\<lparr>fetchInProgressRef := True, loading := True, error := None\<rparr>)
        in case error_of (mediaReply r) of
             Some mediaError \<Rightarrow> finally_fetch (catch_fetch mediaError st1)
           | None \<Rightarrow>
               (case data_of (mediaReply r) of
                  None \<Rightarrow> finally_fetch (st1\<lparr>mediaContent := []\<rparr>)
                | Some mediaData \<Rightarrow>
                    if length mediaData > 0 then
                      let st2 = issue SelectAllLikes st1;
                          allLikes = data_of (allLikesReply r);
                          st3 = (case error_of (allLikesReply r) of
                                   Some likesError \<Rightarrow> issue (ConsoleError ''Error fetching likes:'') st2
                                 | None \<Rightarrow> st2);
                          (userLikes, userFollows, st4) =
                            (case user of
                               None \<Rightarrow> ([], [], st3)
                             | Some uid \<Rightarrow>
                                 (viewer_rows (userLikesReply r),
                                  viewer_rows (userFollowsReply r),
                                  issue (SelectUserFollows uid) (issue (SelectUserLikes uid) st3)))
                      in finally_fetch
                           (st4\<lparr>mediaContent := enrichedData mediaData allLikes userLikes userFollows\<rparr>)
                    else finally_fetch (st1\<lparr>mediaContent := []\<rparr>)))"

section \<open>\<^verbatim>\<open>handleLike\<close> and \<^verbatim>\<open>handleFollow\<close>\<close>

text \<open>
  Each handler runs synchronously up to its \<^verbatim>\<open>await\<close> of the durable write and resumes
  when the write has resolved. The first half (\<open>_begin\<close>) returns the state at the
  \<^verbatim>\<open>await\<close> together with the captured \<^verbatim>\<open>previousContent\<close>, or \<open>None\<close> when the handler
  returned before reaching the write; the second half (\<open>_settle\<close>) is the code after the
  \<^verbatim>\<open>await\<close>, run on whatever the state is by then. The handler as a whole composes them.
  A handler is called from the render of the current state, so the \<^verbatim>\<open>mediaContent\<close> it
  has captured and the \<^verbatim>\<open>prev\<close> its updater receives are both the collection of the state
  it is called on.
\<close>

datatype write_result = WriteOk | WriteFailed string

definition like_patch ::
  "string \<Rightarrow> bool option \<Rightarrow> 'z MediaItem_scheme list \<Rightarrow> 'z MediaItem_scheme list" where
  "like_patch mediaId wasLiked prev =
     map (\<lambda>m. if item_id m = mediaId
               then m\<lparr>is_liked := Some (\<not> truthy_bool wasLiked),
                      likes_count :=
                        Some (if truthy_bool wasLiked
                              then max 0 (or_zero (likes_count m) - 1)
                              else or_zero (likes_count m) + 1)\<rparr>
               else m) prev"

definition handleLike_begin ::
  "string option \<Rightarrow> string \<Rightarrow> 'z MediaState
     \<Rightarrow> 'z MediaState \<times> 'z MediaItem_scheme list option" where
  "handleLike_begin user mediaId st =
     (case user of
        None \<Rightarrow>
          (issue (Navigate ''/signin'') (issue (Alert ''Please sign in to like content.'') st),
           None)
      | Some uid \<Rightarrow>
          (case find (\<lambda>m. item_id m = mediaId) (mediaContent st) of
             None \<Rightarrow> (st, None)
           | Some item \<Rightarrow>
               let wasLiked = is_liked item;
                   previousContent = mediaContent st;
                   st1 = st\<lparr>mediaContent := like_patch mediaId wasLiked (mediaContent st)\<rparr>;
                   st2 = (if truthy_bool wasLiked then issue (DeleteLike mediaId uid) st1
                          else issue (InsertLike mediaId uid) st1)
               in (st2, Some previousContent)))"

definition handleLike_settle ::
  "'z MediaItem_scheme list \<Rightarrow> write_result \<Rightarrow> 'z MediaState \<Rightarrow> 'z MediaState" where
  "handleLike_settle previousContent res st =
     (case res of
        WriteOk \<Rightarrow> st
      | WriteFailed e \<Rightarrow>
          (issue (ConsoleError ''Error toggling like:'') st)
            \<lparr>mediaContent := previousContent,
             error := Some ''Failed to update like. Please try again.''\<rparr>)"

definition handleLike ::
  "string option \<Rightarrow> string \<Rightarrow> write_result \<Rightarrow> 'z MediaState \<Rightarrow> 'z MediaState" where
  "handleLike user mediaId res st =
     (case handleLike_begin user mediaId st of
        (st', None) \<Rightarrow> st'
      | (st', Some previousContent) \<Rightarrow> handleLike_settle previousContent res st')"

definition follow_patch ::
  "string \<Rightarrow> bool option \<Rightarrow> 'z MediaItem_scheme list \<Rightarrow> 'z MediaItem_scheme list" where
  "follow_patch creatorName wasFollowing prev =
     map (\<lambda>m. if creator_name m = creatorName
               then m\<lparr>is_following := Some (\<not> truthy_bool wasFollowing)\<rparr>
               else m) prev"

definition handleFollow_begin ::
  "string option \<Rightarrow> string \<Rightarrow> 'z MediaState
     \<Rightarrow> 'z MediaState \<times> 'z MediaItem_scheme list option" where
  "handleFollow_begin user creatorName st =
     (case user of
        None \<Rightarrow>
          (issue (Navigate ''/signin'') (issue (Alert ''Please sign in to follow creators.'') st),
           None)
      | Some uid \<Rightarrow>
          (case find (\<lambda>m. creator_name m = creatorName) (mediaContent st) of
             None \<Rightarrow> (st, None)
           | Some item \<Rightarrow>
               let wasFollowing = is_following item;
                   previousContent = mediaContent st;
                   st1 = st\<lparr>mediaContent :=
                              follow_patch creatorName wasFollowing (mediaContent st)\<rparr>;
                   st2 = (if truthy_bool wasFollowing then issue (DeleteFollow creatorName uid) st1
                          else issue (InsertFollow creatorName uid) st1)
               in (st2, Some previousContent)))"

definition handleFollow_settle ::
  "'z MediaItem_scheme list \<Rightarrow> write_result \<Rightarrow> 'z MediaState \<Rightarrow> 'z MediaState" where
  "handleFollow_settle previousContent res st =
     (case res of
        WriteOk \<Rightarrow> st
      | WriteFailed e \<Rightarrow>
          (issue (ConsoleError ''Error toggling follow:'') st)
            \<lparr>mediaContent := previousContent,
             error := Some ''Failed to update follow status. Please try again.''\<rparr>)"

definition handleFollow ::
  "string option \<Rightarrow> string \<Rightarrow> write_result \<Rightarrow> 'z MediaState \<Rightarrow> 'z MediaState" where
  "handleFollow user creatorName res st =
     (case handleFollow_begin user creatorName st of
        (st', None) \<Rightarrow> st'
      | (st', Some previousContent) \<Rightarrow> handleFollow_settle previousContent res st')"

section \<open>The hook \<^verbatim>\<open>useMediaData\<close>\<close>

text \<open>
  The hook keeps its own item type (\<^verbatim>\<open>MediaItem\<close> of \<^verbatim>\<open>lib/supabase\<close>, with the fields
  \<^verbatim>\<open>id\<close>, \<^verbatim>\<open>creator\<close>, \<^verbatim>\<open>like_count\<close>, \<^verbatim>\<open>is_liked\<close>, \<^verbatim>\<open>is_followed\<close>) and reads the two edge
  tables whole, with both columns. It has no in-flight marker. Its count table is a plain
  object indexed by item id; ids are uuids, never the name of an inherited property, so
  the table is a map from ids to counts.
\<close>

record HookItem =
  hook_id :: string
  creator :: string
  like_count :: "int option"
  hook_is_liked :: "bool option"
  is_followed :: "bool option"

record LikeRow =
  media_id :: string
  user_id :: string

record FollowRow =
  followed_creator_name :: string
  follower_id :: string

datatype hook_effect =
    SelectMediaItems string
  | SelectLikes
  | SelectFollows
  | HookConsoleError string

record 'z HookState =
  mediaItems :: "'z HookItem_scheme list"
  hook_loading :: bool
  hook_error :: "string option"
  hook_effects :: "hook_effect list"

record 'z HookReplies =
  itemsReply :: "'z HookItem_scheme response"
  likesReply :: "LikeRow response"
  followsReply :: "FollowRow response"

text \<open>\<^verbatim>\<open>userId\<close> is a string or \<^verbatim>\<open>null\<close>; the empty string is falsy as well.\<close>

definition truthy_str :: "string option \<Rightarrow> bool" where
  "truthy_str v = (case v of None \<Rightarrow> False | Some s \<Rightarrow> s \<noteq> [])"

definition likeCounts :: "LikeRow list option \<Rightarrow> (string \<rightharpoonup> int)" where
  "likeCounts likesData =
     (case likesData of
        None \<Rightarrow> Map.empty
      | Some rows \<Rightarrow> fold (\<lambda>like. count_like (media_id like)) rows Map.empty)"

definition hook_userLikes :: "string option \<Rightarrow> LikeRow list option \<Rightarrow> string set" where
  "hook_userLikes userId likesData =
     (case likesData of
        None \<Rightarrow> {}
      | Some rows \<Rightarrow>
          set (map media_id
                 (filter (\<lambda>like. truthy_str userId \<and> Some (user_id like) = userId) rows)))"

definition hook_userFollows :: "string option \<Rightarrow> FollowRow list option \<Rightarrow> string set" where
  "hook_userFollows userId followsData =
     (case followsData of
        None \<Rightarrow> {}
      | Some rows \<Rightarrow>
          if truthy_str userId
          then set (map followed_creator_name
                      (filter (\<lambda>follow. Some (follower_id follow) = userId) rows))
          else {})"

definition hook_enrich ::
  "(string \<rightharpoonup> int) \<Rightarrow> string set \<Rightarrow> string set \<Rightarrow> 'z HookItem_scheme \<Rightarrow> 'z HookItem_scheme" where
  "hook_enrich counts userLikes userFollows item =
     item\<lparr>like_count := Some (or_zero (or_num (counts (hook_id item)) (like_count item))),
          hook_is_liked := Some (hook_id item \<in> userLikes),
          is_followed := Some (creator item \<in> userFollows)\<rparr>"

definition hook_issue :: "hook_effect \<Rightarrow> 'z HookState \<Rightarrow> 'z HookState" where
  "hook_issue c st = st\<lparr>hook_effects := hook_effects st @ [c]\<rparr>"

definition fetchMediaItems ::
  "string \<Rightarrow> string option \<Rightarrow> 'z HookReplies \<Rightarrow> 'z HookState \<Rightarrow> 'z HookState" where
  "fetchMediaItems type userId r st =
     (let st1 = hook_issue (SelectMediaItems type) (st\<lparr>hook_loading := True, hook_error := None\<rparr>)
      in case error_of (itemsReply r) of
           Some itemsError \<Rightarrow>
             (hook_issue (HookConsoleError ''Error fetching media items:'') st1)
               \<lparr>hook_error := Some ''Failed to load media items'',
                mediaItems := [],
                hook_loading := False\<rparr>
         | None \<Rightarrow>
             (case data_of (itemsReply r) of
                None \<Rightarrow> st1\<lparr>mediaItems := [], hook_loading := False\<rparr>
              | Some items \<Rightarrow>
                  if length items = 0 then st1\<lparr>mediaItems := [], hook_loading := False\<rparr>
                  else
                    let st2 = hook_issue SelectFollows (hook_issue SelectLikes st1);
                        likesData = data_of (likesReply r);
                        followsData = data_of (followsReply r);
                        enrichedItems =
                          map (hook_enrich (likeCounts likesData)
                                 (hook_userLikes userId likesData)
                                 (hook_userFollows userId followsData)) items
                    in st2\<lparr>mediaItems := enrichedItems, hook_loading := False\<rparr>))"

section \<open>The fetch as a suspended computation\<close>

text \<open>
  \<^verbatim>\<open>fetchMediaContent\<close> suspends at each of its four \<^verbatim>\<open>await\<close>s, and other callbacks of
  the single-threaded event loop may run in between. A suspended call is the \<^verbatim>\<open>await\<close> it
  waits at together with the locals it has computed so far; \<open>fetch_start\<close> is the code up
  to the first \<^verbatim>\<open>await\<close>, \<open>fetch_resume\<close> the code from one \<^verbatim>\<open>await\<close> to the next or to
  the end of the \<^verbatim>\<open>finally\<close> block (\<open>None\<close>: the call has returned).
\<close>

datatype 'z fetch_cont =
    AwaitMedia
  | AwaitAllLikes "'z MediaItem_scheme list"
  | AwaitUserLikes "'z MediaItem_scheme list" "string list option" string
  | AwaitUserFollows "'z MediaItem_scheme list" "string list option" "string list"

datatype 'z reply =
    MediaReply "'z MediaItem_scheme response"
  | EdgeReply "string response"

definition fetch_start ::
  "string \<Rightarrow> 'z MediaState \<Rightarrow> 'z MediaState \<times> 'z fetch_cont option" where
  "fetch_start activeTab st =
     (if fetchInProgressRef st then (st, None)
      else (issue (SelectMediaContent activeTab)
              (st\<lparr>fetchInProgressRef := True, loading := True, error := None\<rparr>),
            Some AwaitMedia))"

text \<open>A reply of the wrong table is never delivered; the last equation leaves the call waiting.\<close>

fun fetch_resume ::
  "string option \<Rightarrow> 'z fetch_cont \<Rightarrow> 'z reply \<Rightarrow> 'z MediaState
     \<Rightarrow> 'z MediaState \<times> 'z fetch_cont option" where
  "fetch_resume user AwaitMedia (MediaReply r) st =
     (case error_of r of
        Some mediaError \<Rightarrow> (finally_fetch (catch_fetch mediaError st), None)
      | None \<Rightarrow>
          (case data_of r of
             None \<Rightarrow> (finally_fetch (st\<lparr>mediaContent := []\<rparr>), None)
           | Some mediaData \<Rightarrow>
               if length mediaData > 0
               then (issue SelectAllLikes st, Some (AwaitAllLikes mediaData))
               else (finally_fetch (st\<lparr>mediaContent := []\<rparr>), None)))"
| "fetch_resume user (AwaitAllLikes mediaData) (EdgeReply r) st =
     (let allLikes = data_of r;
          st3 = (case error_of r of
                   Some likesError \<Rightarrow> issue (ConsoleError ''Error fetching likes:'') st
                 | None \<Rightarrow> st)
      in case user of
           None \<Rightarrow>
             (finally_fetch (st3\<lparr>mediaContent := enrichedData mediaData allLikes [] []\<rparr>), None)
         | Some uid \<Rightarrow>
             (issue (SelectUserLikes uid) st3, Some (AwaitUserLikes mediaData allLikes uid)))"
| "fetch_resume user (AwaitUserLikes mediaData allLikes uid) (EdgeReply r) st =
     (issue (SelectUserFollows uid) st,
      Some (AwaitUserFollows mediaData allLikes (viewer_rows r)))"
| "fetch_resume user (AwaitUserFollows mediaData allLikes userLikes) (EdgeReply r) st =
     (finally_fetch
        (st\<lparr>mediaContent := enrichedData mediaData allLikes userLikes (viewer_rows r)\<rparr>),
      None)"
| "fetch_resume user k rep st = (st, Some k)"

text \<open>
  The page with its suspended fetch calls. \<open>Trigger\<close> is a call of \<^verbatim>\<open>fetchMediaContent()\<close>
  (from an effect or a subscription callback); \<open>Deliver i rep\<close> resolves the \<^verbatim>\<open>await\<close> of
  the \<open>i\<close>-th suspended call with \<open>rep\<close>.
\<close>

record 'z page =
  store :: "'z MediaState"
  in_flight :: "'z fetch_cont list"

datatype 'z event = Trigger | Deliver nat "'z reply"

fun page_step :: "string option \<Rightarrow> string \<Rightarrow> 'z event \<Rightarrow> 'z page \<Rightarrow> 'z page" where
  "page_step user activeTab Trigger p =
     (case fetch_start activeTab (store p) of
        (st', None) \<Rightarrow> p\<lparr>store := st'\<rparr>
      | (st', Some k) \<Rightarrow> p\<lparr>store := st', in_flight := in_flight p @ [k]\<rparr>)"
| "page_step user activeTab (Deliver i rep) p =
     (if i < length (in_flight p)
      then (case fetch_resume user (in_flight p ! i) rep (store p) of
              (st', None) \<Rightarrow>
                p\<lparr>store := st', in_flight := take i (in_flight p) @ drop (Suc i) (in_flight p)\<rparr>
            | (st', Some k) \<Rightarrow> p\<lparr>store := st', in_flight := (in_flight p)[i := k]\<rparr>)
      else p)"

definition run_page :: "string option \<Rightarrow> string \<Rightarrow> 'z event list \<Rightarrow> 'z page \<Rightarrow> 'z page" where
  "run_page user activeTab evs p = fold (page_step user activeTab) evs p"

text \<open>How many content reads (one per fetch cycle) a list of effects holds.\<close>

definition read_cycles :: "effect list \<Rightarrow> nat" where
  "read_cycles es = length (filter (\<lambda>e. case e of SelectMediaContent t \<Rightarrow> True | _ \<Rightarrow> False) es)"

section \<open>Properties of the page with its suspended fetch calls\<close>

text \<open>
  The guard's invariant: at most one call of \<^verbatim>\<open>fetchMediaContent\<close> is suspended, and the
  marker is set exactly when one is. \<open>stays_in_flight\<close> says that the marker is set before
  each event of a list and after the last one, that is, no fetch completes and leaves the
  page idle on the way.
\<close>

definition guard_inv :: "'z page \<Rightarrow> bool" where
  "guard_inv p =
     (length (in_flight p) \<le> 1 \<and> fetchInProgressRef (store p) = (in_flight p \<noteq> []))"

fun stays_in_flight :: "string option \<Rightarrow> string \<Rightarrow> 'z event list \<Rightarrow> 'z page \<Rightarrow> bool" where
  "stays_in_flight user activeTab [] p = fetchInProgressRef (store p)"
| "stays_in_flight user activeTab (ev # evs) p =
     (fetchInProgressRef (store p)
      \<and> stays_in_flight user activeTab evs (page_step user activeTab ev p))"

section \<open>Properties of an item collection\<close>





section \<open>Example inputs\<close>

text \<open>
  The state of a freshly mounted page, a page that has loaded one item, and backend
  answers used to evaluate the functions above on concrete inputs.
\<close>

definition initial_state :: "unit MediaState" where
  "initial_state =
     \<lparr>mediaContent = [], loading = True, error = None, fetchInProgressRef = False, effects = []\<rparr>"

definition item_a :: MediaItem where
  "item_a = \<lparr>item_id = ''a'', creator_name = ''Jo'', likes_count = None,
              is_liked = None, is_following = None\<rparr>"

definition item_b5 :: MediaItem where
  "item_b5 = \<lparr>item_id = ''b'', creator_name = ''Al'', likes_count = Some 5,
              is_liked = None, is_following = None\<rparr>"

definition item_a2 :: MediaItem where
  "item_a2 = \<lparr>item_id = ''a'', creator_name = ''Jo'', likes_count = Some 2,
               is_liked = Some False, is_following = Some False\<rparr>"

definition loaded_state :: "unit MediaState" where
  "loaded_state =
     \<lparr>mediaContent = [item_a2], loading = False, error = None, fetchInProgressRef = False,
      effects = []\<rparr>"

definition replies_failed :: "unit FetchReplies" where
  "replies_failed =
     \<lparr>mediaReply = Failed ''network'', allLikesReply = NoData,
      userLikesReply = NoData, userFollowsReply = NoData\<rparr>"

definition replies_scenario :: "unit FetchReplies" where
  "replies_scenario =
     \<lparr>mediaReply = Rows [item_a], allLikesReply = Rows [],
      userLikesReply = Rows [], userFollowsReply = Rows []\<rparr>"

definition replies_two_likes :: "unit FetchReplies" where
  "replies_two_likes =
     \<lparr>mediaReply = Rows [item_a, item_b5], allLikesReply = Rows [''a'', ''a''],
      userLikesReply = Rows [''a''], userFollowsReply = Rows [''Jo'']\<rparr>"

definition replies_likes_failed :: "unit FetchReplies" where
  "replies_likes_failed =
     \<lparr>mediaReply = Rows [item_a, item_b5], allLikesReply = Failed ''permission denied'',
      userLikesReply = Rows [''a''], userFollowsReply = Rows []\<rparr>"

definition item_a_liked0 :: MediaItem where
  "item_a_liked0 = \<lparr>item_id = ''a'', creator_name = ''Jo'', likes_count = Some 0,
                     is_liked = Some True, is_following = Some False\<rparr>"

definition liked_uncounted_state :: "unit MediaState" where
  "liked_uncounted_state =
     \<lparr>mediaContent = [item_a_liked0], loading = False, error = None,
      fetchInProgressRef = False, effects = []\<rparr>"

definition replies_liked_uncounted :: "unit FetchReplies" where
  "replies_liked_uncounted =
     \<lparr>mediaReply = Rows [item_a], allLikesReply = Failed ''permission denied'',
      userLikesReply = Rows [''a''], userFollowsReply = Rows []\<rparr>"

definition item_c_followed :: MediaItem where
  "item_c_followed = \<lparr>item_id = ''c'', creator_name = ''Jo'', likes_count = Some 1,
                       is_liked = Some False, is_following = Some True\<rparr>"

definition item_d_followed :: MediaItem where
  "item_d_followed = \<lparr>item_id = ''d'', creator_name = ''Jo'', likes_count = Some 0,
                       is_liked = Some False, is_following = Some True\<rparr>"

definition item_e_other :: MediaItem where
  "item_e_other = \<lparr>item_id = ''e'', creator_name = ''Al'', likes_count = Some 4,
                    is_liked = Some True, is_following = Some False\<rparr>"

definition three_items_state :: "unit MediaState" where
  "three_items_state =
     \<lparr>mediaContent = [item_c_followed, item_e_other, item_d_followed], loading = False,
      error = None, fetchInProgressRef = False, effects = []\<rparr>"

definition row_c :: MediaItem where
  "row_c = \<lparr>item_id = ''c'', creator_name = ''Jo'', likes_count = None,
             is_liked = None, is_following = None\<rparr>"

definition row_d :: MediaItem where
  "row_d = \<lparr>item_id = ''d'', creator_name = ''Jo'', likes_count = None,
             is_liked = None, is_following = None\<rparr>"

definition row_e :: MediaItem where
  "row_e = \<lparr>item_id = ''e'', creator_name = ''Al'', likes_count = None,
             is_liked = None, is_following = None\<rparr>"

definition replies_three :: "unit FetchReplies" where
  "replies_three =
     \<lparr>mediaReply = Rows [row_c, row_e, row_d],
      allLikesReply = Rows [''c'', ''e'', ''e'', ''e'', ''e''],
      userLikesReply = Rows [''e''], userFollowsReply = Rows [''Jo'']\<rparr>"

definition fetched_three_state :: "unit MediaState" where
  "fetched_three_state =
     \<lparr>mediaContent = [item_c_followed, item_e_other, item_d_followed], loading = False,
      error = None, fetchInProgressRef = False,
      effects = [SelectMediaContent ''stream'', SelectAllLikes, SelectUserLikes ''u1'',
                 SelectUserFollows ''u1'']\<rparr>"

definition idle_page :: "unit page" where
  "idle_page = \<lparr>store = initial_state, in_flight = []\<rparr>"

definition hook_item_a :: HookItem where
  "hook_item_a = \<lparr>hook_id = ''a'', creator = ''Jo'', like_count = Some 7,
                   hook_is_liked = None, is_followed = None\<rparr>"

definition hook_initial :: "unit HookState" where
  "hook_initial = \<lparr>mediaItems = [], hook_loading = True, hook_error = None, hook_effects = []\<rparr>"

definition hook_loaded :: "unit HookState" where
  "hook_loaded =
     \<lparr>mediaItems = [hook_item_a], hook_loading = False, hook_error = None, hook_effects = []\<rparr>"

definition hook_replies :: "unit HookReplies" where
  "hook_replies =
     \<lparr>itemsReply = Rows [hook_item_a],
      likesReply = Rows [\<lparr>media_id = ''a'', user_id = ''u1''\<rparr>, \<lparr>media_id = ''a'', user_id = ''u2''\<rparr>],
      followsReply = Rows [\<lparr>followed_creator_name = ''Jo'', follower_id = ''u1''\<rparr>]\<rparr>"

definition hook_replies_failed :: "unit HookReplies" where
  "hook_replies_failed =
     \<lparr>itemsReply = Failed ''network'', likesReply = NoData, followsReply = NoData\<rparr>"

definition replies_no_edges :: "unit FetchReplies" where
  "replies_no_edges =
     \<lparr>mediaReply = Rows [item_b5], allLikesReply = Rows [],
      userLikesReply = Rows [], userFollowsReply = Rows []\<rparr>"

lemmas example_defs =
  initial_state_def loaded_state_def item_a_def item_a2_def item_b5_def
  replies_no_edges_def replies_failed_def replies_scenario_def replies_two_likes_def
  replies_likes_failed_def item_a_liked0_def liked_uncounted_state_def
  replies_liked_uncounted_def item_c_followed_def item_d_followed_def item_e_other_def
  three_items_state_def row_c_def row_d_def row_e_def replies_three_def
  fetched_three_state_def idle_page_def hook_item_a_def hook_initial_def hook_loaded_def
  hook_replies_def hook_replies_failed_def

lemmas fetch_defs =
  fetchMediaContent_def Let_def finally_fetch_def catch_fetch_def issue_def enrichedData_def
  enrich_def likesCountMap_def count_like_def or_empty_def or_num_def truthy_num_def
  viewer_rows_def

lemmas handler_defs =
  handleLike_def handleLike_begin_def handleLike_settle_def like_patch_def
  handleFollow_def handleFollow_begin_def handleFollow_settle_def follow_patch_def
  issue_def Let_def truthy_bool_def

lemmas hook_defs =
  fetchMediaItems_def Let_def hook_issue_def hook_enrich_def likeCounts_def count_like_def
  hook_userLikes_def hook_userFollows_def truthy_str_def or_num_def truthy_num_def


section \<open>Facts about the like-count map\<close>

lemma or_zero_Some [simp]: "or_zero (Some n) = n"
  by (simp add: or_zero_def)

lemma or_zero_None [simp]: "or_zero None = 0"
  by (simp add: or_zero_def)

lemma fold_count_like:
  "fold count_like ls m0 k =
     (if count_list ls k = 0 then m0 k
      else Some (or_zero (m0 k) + int (count_list ls k)))"
proof (induction ls arbitrary: m0)
  case Nil
  show ?case by simp
next
  case (Cons l ls)
  have "fold count_like (l # ls) m0 k = fold count_like ls (count_like l m0) k"
    by simp
  also have "\<dots> = (if count_list ls k = 0 then count_like l m0 k
      else Some (or_zero (count_like l m0 k) + int (count_list ls k)))"
    by (rule Cons.IH)
  also have "\<dots> = (if count_list (l # ls) k = 0 then m0 k
      else Some (or_zero (m0 k) + int (count_list (l # ls) k)))"
    by (simp add: count_like_def)
  finally show ?case .
qed

lemma likesCountMap_count:
  "likesCountMap ls k = (if count_list ls k = 0 then None else Some (int (count_list ls k)))"
  by (simp add: likesCountMap_def fold_count_like)

section \<open>Facts about one fetch cycle\<close>

lemma fetch_rows_content:
  "\<not> fetchInProgressRef st \<Longrightarrow> mediaReply r = Rows mediaData \<Longrightarrow>
   mediaContent (fetchMediaContent user activeTab r st) =
     enrichedData mediaData (data_of (allLikesReply r))
       (case user of None \<Rightarrow> [] | Some uid \<Rightarrow> viewer_rows (userLikesReply r))
       (case user of None \<Rightarrow> [] | Some uid \<Rightarrow> viewer_rows (userFollowsReply r))"
  by (cases mediaData)
    (simp_all add: fetchMediaContent_def Let_def finally_fetch_def issue_def enrichedData_def
      split: option.splits)

lemma fetch_failed_state:
  "\<not> fetchInProgressRef st \<Longrightarrow> mediaReply r = Failed e \<Longrightarrow>
   fetchMediaContent user activeTab r st =
     st\<lparr>mediaContent := [], loading := False,
        error := Some ''Failed to load media content. Please try again.'',
        fetchInProgressRef := False,
        effects := effects st @ [SelectMediaContent activeTab, ConsoleError ''Error fetching media:'']\<rparr>"
  by (simp add: fetchMediaContent_def Let_def finally_fetch_def catch_fetch_def issue_def)

lemma fetch_releases_marker:
  "\<not> fetchInProgressRef st \<Longrightarrow>
   \<not> fetchInProgressRef (fetchMediaContent user activeTab r st) \<and>
   \<not> loading (fetchMediaContent user activeTab r st)"
  by (simp add: fetchMediaContent_def Let_def finally_fetch_def catch_fetch_def issue_def
      split: option.splits prod.splits)

lemma fetch_error_flag:
  "\<not> fetchInProgressRef st \<Longrightarrow>
   error (fetchMediaContent user activeTab r st) =
     (case error_of (mediaReply r) of
        None \<Rightarrow> None
      | Some e \<Rightarrow> Some ''Failed to load media content. Please try again.'')"
  by (simp add: fetchMediaContent_def Let_def finally_fetch_def catch_fetch_def issue_def
      split: option.splits prod.splits)

lemma fetch_effects_public:
  "\<not> fetchInProgressRef st \<Longrightarrow>
   \<exists>new. effects (fetchMediaContent None activeTab r st) = effects st @ new \<and>
     set new \<subseteq> {SelectMediaContent activeTab, SelectAllLikes,
                  ConsoleError ''Error fetching media:'', ConsoleError ''Error fetching likes:''}"
  by (simp add: fetchMediaContent_def Let_def finally_fetch_def catch_fetch_def issue_def
      split: option.splits prod.splits)

lemma enrich_likes_count:
  "likes_count (enrich (likesCountMap ls) ul uf item) =
     Some (if count_list ls (item_id item) \<noteq> 0 then int (count_list ls (item_id item))
           else or_zero (likes_count item))"
  by (simp add: enrich_def likesCountMap_count or_num_def truthy_num_def)

lemma enrich_fields [simp]:
  "item_id (enrich cm ul uf item) = item_id item"
  "creator_name (enrich cm ul uf item) = creator_name item"
  "is_liked (enrich cm ul uf item) = Some (item_id item \<in> ul)"
  "is_following (enrich cm ul uf item) = Some (creator_name item \<in> uf)"
  by (simp_all add: enrich_def)

lemma hook_rows_items:
  "itemsReply r = Rows items \<Longrightarrow>
   mediaItems (fetchMediaItems type userId r st) =
     map (hook_enrich (likeCounts (data_of (likesReply r)))
            (hook_userLikes userId (data_of (likesReply r)))
            (hook_userFollows userId (data_of (followsReply r)))) items"
  by (cases items) (simp_all add: fetchMediaItems_def Let_def hook_issue_def)

lemma fold_count_media_id:
  "fold (\<lambda>like. count_like (media_id like)) rows m = fold count_like (map media_id rows) m"
  by (simp add: fold_map comp_def)

lemma likeCounts_count:
  "likeCounts likesData k =
     (if count_list (map media_id (or_empty likesData)) k = 0 then None
      else Some (int (count_list (map media_id (or_empty likesData)) k)))"
  by (cases likesData)
    (simp_all add: likeCounts_def or_empty_def fold_count_media_id fold_count_like)

lemma hook_enrich_like_count:
  "like_count (hook_enrich (likeCounts ld) ul uf item) =
     Some (if count_list (map media_id (or_empty ld)) (hook_id item) \<noteq> 0
           then int (count_list (map media_id (or_empty ld)) (hook_id item))
           else or_zero (like_count item))"
  by (simp add: hook_enrich_def likeCounts_count or_num_def truthy_num_def)

lemma hook_enrich_fields [simp]:
  "hook_id (hook_enrich cm ul uf item) = hook_id item"
  "creator (hook_enrich cm ul uf item) = creator item"
  "hook_is_liked (hook_enrich cm ul uf item) = Some (hook_id item \<in> ul)"
  "is_followed (hook_enrich cm ul uf item) = Some (creator item \<in> uf)"
  by (simp_all add: hook_enrich_def)

section \<open>Claim C1: like counts after enrichment\<close>

text \<open>
  C1, as stated, says that every enriched item's like count is the number of like edges
  for its id, also when the stored counter disagrees. On the page an item with a stored
  counter of 5 and no like edge keeps the 5:
\<close>

theorem C1_counterexample:
  "likes_count (mediaContent (fetchMediaContent None ''stream'' replies_no_edges initial_state) ! 0)
     \<noteq> Some (int (count_list (or_empty (data_of (allLikesReply replies_no_edges))) (item_id item_b5)))"
  by (simp add: example_defs fetch_defs)

text \<open>
  C1, amended. When the content read returns \<open>N\<close> rows, the pass yields \<open>N\<close> items in
  the same order; an item's like count is the number of like rows for its id when that
  number is not zero, and otherwise the row's stored counter (\<open>0\<close> when that is missing or
  zero). This holds for the page (\<^verbatim>\<open>fetchMediaContent\<close>) and for the hook
  (\<^verbatim>\<open>fetchMediaItems\<close>).
\<close>

theorem enrichment_like_count:
  assumes "\<not> fetchInProgressRef st"
    and "mediaReply r = Rows mediaData"
    and "itemsReply hr = Rows items"
  shows "length (mediaContent (fetchMediaContent user activeTab r st)) = length mediaData
    \<and> (\<forall>i < length mediaData.
          item_id (mediaContent (fetchMediaContent user activeTab r st) ! i) = item_id (mediaData ! i)
        \<and> likes_count (mediaContent (fetchMediaContent user activeTab r st) ! i) =
            Some (if count_list (or_empty (data_of (allLikesReply r))) (item_id (mediaData ! i)) \<noteq> 0
                  then int (count_list (or_empty (data_of (allLikesReply r))) (item_id (mediaData ! i)))
                  else or_zero (likes_count (mediaData ! i))))
    \<and> length (mediaItems (fetchMediaItems type userId hr hst)) = length items
    \<and> (\<forall>i < length items.
          hook_id (mediaItems (fetchMediaItems type userId hr hst) ! i) = hook_id (items ! i)
        \<and> like_count (mediaItems (fetchMediaItems type userId hr hst) ! i) =
            Some (if count_list (map media_id (or_empty (data_of (likesReply hr)))) (hook_id (items ! i)) \<noteq> 0
                  then int (count_list (map media_id (or_empty (data_of (likesReply hr)))) (hook_id (items ! i)))
                  else or_zero (like_count (items ! i))))"
proof -
  have m: "mediaContent (fetchMediaContent user activeTab r st) =
      enrichedData mediaData (data_of (allLikesReply r))
       (case user of None \<Rightarrow> [] | Some uid \<Rightarrow> viewer_rows (userLikesReply r))
       (case user of None \<Rightarrow> [] | Some uid \<Rightarrow> viewer_rows (userFollowsReply r))"
    using assms(1,2) by (rule fetch_rows_content)
  have h: "mediaItems (fetchMediaItems type userId hr hst) =
     map (hook_enrich (likeCounts (data_of (likesReply hr)))
            (hook_userLikes userId (data_of (likesReply hr)))
            (hook_userFollows userId (data_of (followsReply hr)))) items"
    using assms(3) by (rule hook_rows_items)
  have c1: "length (mediaContent (fetchMediaContent user activeTab r st)) = length mediaData"
    by (simp add: m enrichedData_def)
  have c2: "item_id (mediaContent (fetchMediaContent user activeTab r st) ! i) = item_id (mediaData ! i)
        \<and> likes_count (mediaContent (fetchMediaContent user activeTab r st) ! i) =
            Some (if count_list (or_empty (data_of (allLikesReply r))) (item_id (mediaData ! i)) \<noteq> 0
                  then int (count_list (or_empty (data_of (allLikesReply r))) (item_id (mediaData ! i)))
                  else or_zero (likes_count (mediaData ! i)))"
    if "i < length mediaData" for i
    using that by (simp only: m enrichedData_def nth_map enrich_likes_count enrich_fields simp_thms)
  have c3: "length (mediaItems (fetchMediaItems type userId hr hst)) = length items"
    by (simp add: h)
  have c4: "hook_id (mediaItems (fetchMediaItems type userId hr hst) ! i) = hook_id (items ! i)
        \<and> like_count (mediaItems (fetchMediaItems type userId hr hst) ! i) =
            Some (if count_list (map media_id (or_empty (data_of (likesReply hr)))) (hook_id (items ! i)) \<noteq> 0
                  then int (count_list (map media_id (or_empty (data_of (likesReply hr)))) (hook_id (items ! i)))
                  else or_zero (like_count (items ! i)))"
    if "i < length items" for i
    using that by (simp only: h nth_map hook_enrich_like_count hook_enrich_fields simp_thms)
  show ?thesis
  proof (intro conjI allI impI)
    show "length (mediaContent (fetchMediaContent user activeTab r st)) = length mediaData"
      by (rule c1)
    show "length (mediaItems (fetchMediaItems type userId hr hst)) = length items"
      by (rule c3)
  qed (simp_all only: c2 c4)
qed


theorem enrichment_like_count_witness:
  "\<not> fetchInProgressRef initial_state
   \<and> mediaReply replies_two_likes = Rows [item_a, item_b5]
   \<and> itemsReply hook_replies = Rows [hook_item_a]
   \<and> length (mediaContent (fetchMediaContent (Some ''u1'') ''stream'' replies_two_likes initial_state)) = 2
   \<and> likes_count (mediaContent (fetchMediaContent (Some ''u1'') ''stream'' replies_two_likes initial_state) ! 0) = Some 2
   \<and> likes_count (mediaContent (fetchMediaContent (Some ''u1'') ''stream'' replies_two_likes initial_state) ! 1) = Some 5
   \<and> like_count (mediaItems (fetchMediaItems ''stream'' (Some ''u1'') hook_replies hook_initial) ! 0) = Some 2"
proof -
  have h1: "\<not> fetchInProgressRef initial_state" by (simp add: initial_state_def)
  have h2: "mediaReply replies_two_likes = Rows [item_a, item_b5]"
    by (simp add: replies_two_likes_def)
  have h3: "itemsReply hook_replies = Rows [hook_item_a]" by (simp add: hook_replies_def)
  note t = enrichment_like_count [OF h1 h2 h3, of "Some ''u1''" "''stream''" "''stream''" "Some ''u1''" hook_initial]
  have a: "allLikesReply replies_two_likes = Rows [''a'', ''a'']"
    by (simp add: replies_two_likes_def)
  have b: "likesReply hook_replies = Rows [\<lparr>media_id = ''a'', user_id = ''u1''\<rparr>, \<lparr>media_id = ''a'', user_id = ''u2''\<rparr>]"
    by (simp add: hook_replies_def)
  from t have "length (mediaContent (fetchMediaContent (Some ''u1'') ''stream'' replies_two_likes initial_state)) = 2"
    by simp
  moreover from t have "likes_count (mediaContent (fetchMediaContent (Some ''u1'') ''stream'' replies_two_likes initial_state) ! 0) = Some 2"
    by (simp add: a or_empty_def item_a_def)
  moreover from t have "likes_count (mediaContent (fetchMediaContent (Some ''u1'') ''stream'' replies_two_likes initial_state) ! 1) = Some 5"
    by (simp add: a or_empty_def item_a_def item_b5_def)
  moreover from t have "like_count (mediaItems (fetchMediaItems ''stream'' (Some ''u1'') hook_replies hook_initial) ! 0) = Some 2"
    by (simp add: b or_empty_def hook_item_a_def)
  ultimately show ?thesis using h1 h2 h3 by simp
qed

section \<open>Claim C2: a failed fetch cycle\<close>

lemma hook_failed_state:
  "itemsReply r = Failed e \<Longrightarrow>
   fetchMediaItems type userId r st =
     st\<lparr>mediaItems := [], hook_loading := False,
        hook_error := Some ''Failed to load media items'',
        hook_effects := hook_effects st @
          [SelectMediaItems type, HookConsoleError ''Error fetching media items:'']\<rparr>"
  by (simp add: fetchMediaItems_def Let_def hook_issue_def)

text \<open>
  C2, as stated, says that a failed fetch keeps the previous item collection. The
  \<^verbatim>\<open>catch\<close> block calls \<^verbatim>\<open>setMediaContent([])\<close>: a page that shows one item shows none
  after a failed fetch.
\<close>

theorem C2_counterexample:
  "mediaContent (fetchMediaContent None ''stream'' replies_failed loaded_state)
     \<noteq> mediaContent loaded_state"
  by (simp add: example_defs fetch_defs)

text \<open>
  C2, amended. When the content read of a fetch cycle reports an error, the item
  collection is replaced by the empty collection and the error flag is set; the in-flight
  marker and the loading flag are released. The hook does the same with its own state.
\<close>

theorem fetch_failure_empties_collection:
  assumes "\<not> fetchInProgressRef st"
    and "mediaReply r = Failed e"
    and "itemsReply hr = Failed e'"
  shows "mediaContent (fetchMediaContent user activeTab r st) = []
    \<and> error (fetchMediaContent user activeTab r st)
          = Some ''Failed to load media content. Please try again.''
    \<and> \<not> fetchInProgressRef (fetchMediaContent user activeTab r st)
    \<and> \<not> loading (fetchMediaContent user activeTab r st)
    \<and> mediaItems (fetchMediaItems type userId hr hst) = []
    \<and> hook_error (fetchMediaItems type userId hr hst) = Some ''Failed to load media items''
    \<and> \<not> hook_loading (fetchMediaItems type userId hr hst)"
  by (simp add: fetch_failed_state [OF assms(1,2)] hook_failed_state [OF assms(3)])

theorem fetch_failure_empties_collection_witness:
  "\<not> fetchInProgressRef loaded_state
   \<and> mediaReply replies_failed = Failed ''network''
   \<and> itemsReply hook_replies_failed = Failed ''network''
   \<and> mediaContent loaded_state = [item_a2]
   \<and> mediaContent (fetchMediaContent (Some ''u1'') ''stream'' replies_failed loaded_state) = []
   \<and> error (fetchMediaContent (Some ''u1'') ''stream'' replies_failed loaded_state)
         = Some ''Failed to load media content. Please try again.''
   \<and> mediaItems hook_loaded = [hook_item_a]
   \<and> mediaItems (fetchMediaItems ''stream'' (Some ''u1'') hook_replies_failed hook_loaded) = []"
proof -
  have h1: "\<not> fetchInProgressRef loaded_state" by (simp add: loaded_state_def)
  have h2: "mediaReply replies_failed = Failed ''network''" by (simp add: replies_failed_def)
  have h3: "itemsReply hook_replies_failed = Failed ''network''"
    by (simp add: hook_replies_failed_def)
  note t = fetch_failure_empties_collection [OF h1 h2 h3, of "Some ''u1''" "''stream''"
      "''stream''" "Some ''u1''" hook_loaded]
  have "mediaContent loaded_state = [item_a2]" by (simp add: loaded_state_def)
  moreover have "mediaItems hook_loaded = [hook_item_a]" by (simp add: hook_loaded_def)
  ultimately show ?thesis using h1 h2 h3 t by simp
qed

section \<open>Claim C7: the public view of a signed-out viewer\<close>

lemma hook_items_public:
  "m \<in> set (mediaItems (fetchMediaItems type None r st)) \<Longrightarrow>
   hook_is_liked m = Some False \<and> is_followed m = Some False"
  by (auto simp add: fetchMediaItems_def Let_def hook_issue_def hook_userLikes_def
      hook_userFollows_def truthy_str_def split: option.splits if_splits)

lemma fetch_content_public:
  "\<not> fetchInProgressRef st \<Longrightarrow>
   m \<in> set (mediaContent (fetchMediaContent None activeTab r st)) \<Longrightarrow>
   is_liked m = Some False \<and> is_following m = Some False"
  by (auto simp add: fetchMediaContent_def Let_def finally_fetch_def catch_fetch_def issue_def
      enrichedData_def split: option.splits if_splits)

text \<open>
  C7. With no signed-in viewer (\<^verbatim>\<open>user\<close>, \<^verbatim>\<open>userId\<close> null), every item a fetch cycle
  stores has \<^verbatim>\<open>is_liked = false\<close> and \<^verbatim>\<open>is_following = false\<close>, and the cycle issues
  neither the read of the viewer's likes nor the read of the viewer's follows. The hook,
  which only ever reads the edge tables whole, flags every item \<^verbatim>\<open>false\<close> as well. The
  scenario of the specification (one item \<^verbatim>\<open>a\<close> by \<^verbatim>\<open>Jo\<close>, no edges) is evaluated in
  the witness.
\<close>

theorem null_viewer_public_view:
  assumes "\<not> fetchInProgressRef st"
  shows "(\<forall>m \<in> set (mediaContent (fetchMediaContent None activeTab r st)).
            is_liked m = Some False \<and> is_following m = Some False)
    \<and> (\<exists>new. effects (fetchMediaContent None activeTab r st) = effects st @ new
          \<and> (\<forall>uid. SelectUserLikes uid \<notin> set new \<and> SelectUserFollows uid \<notin> set new))
    \<and> (\<forall>m \<in> set (mediaItems (fetchMediaItems type None hr hst)).
            hook_is_liked m = Some False \<and> is_followed m = Some False)"
proof -
  obtain new where n: "effects (fetchMediaContent None activeTab r st) = effects st @ new"
    and s: "set new \<subseteq> {SelectMediaContent activeTab, SelectAllLikes,
                  ConsoleError ''Error fetching media:'', ConsoleError ''Error fetching likes:''}"
    using fetch_effects_public [OF assms] by blast
  from s have "\<forall>uid. SelectUserLikes uid \<notin> set new \<and> SelectUserFollows uid \<notin> set new"
    by auto
  with n have e: "\<exists>new. effects (fetchMediaContent None activeTab r st) = effects st @ new
          \<and> (\<forall>uid. SelectUserLikes uid \<notin> set new \<and> SelectUserFollows uid \<notin> set new)"
    by blast
  from e fetch_content_public [OF assms] hook_items_public show ?thesis
    by blast
qed

theorem null_viewer_public_view_witness:
  "\<not> fetchInProgressRef initial_state
   \<and> mediaContent (fetchMediaContent None ''stream'' replies_scenario initial_state)
       = [\<lparr>item_id = ''a'', creator_name = ''Jo'', likes_count = Some 0,
            is_liked = Some False, is_following = Some False\<rparr>]
   \<and> list_all (\<lambda>m. is_liked m = Some False \<and> is_following m = Some False)
         (mediaContent (fetchMediaContent None ''stream'' replies_scenario initial_state))
   \<and> effects (fetchMediaContent None ''stream'' replies_scenario initial_state)
       = [SelectMediaContent ''stream'', SelectAllLikes]"
proof -
  have h: "\<not> fetchInProgressRef initial_state" by (simp add: initial_state_def)
  have c: "mediaContent (fetchMediaContent None ''stream'' replies_scenario initial_state)
       = [\<lparr>item_id = ''a'', creator_name = ''Jo'', likes_count = Some 0,
            is_liked = Some False, is_following = Some False\<rparr>]"
    by (simp add: example_defs fetch_defs)
  have e: "effects (fetchMediaContent None ''stream'' replies_scenario initial_state)
       = [SelectMediaContent ''stream'', SelectAllLikes]"
    by (simp add: example_defs fetch_defs)
  from null_viewer_public_view [OF h, of "''stream''" replies_scenario]
  have "\<forall>m \<in> set (mediaContent (fetchMediaContent None ''stream'' replies_scenario initial_state)).
         is_liked m = Some False \<and> is_following m = Some False"
    by blast
  then have "list_all (\<lambda>m. is_liked m = Some False \<and> is_following m = Some False)
         (mediaContent (fetchMediaContent None ''stream'' replies_scenario initial_state))"
    by (simp only: list_all_iff)
  with h c e show ?thesis by blast
qed

section \<open>Claim C10: the read of all like edges fails\<close>

lemma enrich_empty_count:
  "likes_count (enrich (likesCountMap []) ul uf item) = Some (or_zero (likes_count item))"
  by (simp add: enrich_likes_count)

text \<open>
  C10. When the content read succeeds and the read of the full like-edge list reports an
  error, the cycle still completes: the error flag stays clear, the marker is released,
  every row is enriched, each like count is the row's stored counter (or \<open>0\<close>), and
  \<^verbatim>\<open>is_liked\<close> is membership in the rows of the viewer's own like read.
\<close>

theorem likes_read_failure_tolerated:
  assumes "\<not> fetchInProgressRef st"
    and "mediaReply r = Rows mediaData"
    and "allLikesReply r = Failed e"
  shows "error (fetchMediaContent user activeTab r st) = None
    \<and> \<not> fetchInProgressRef (fetchMediaContent user activeTab r st)
    \<and> length (mediaContent (fetchMediaContent user activeTab r st)) = length mediaData
    \<and> (\<forall>i < length mediaData.
          likes_count (mediaContent (fetchMediaContent user activeTab r st) ! i)
            = Some (or_zero (likes_count (mediaData ! i)))
        \<and> is_liked (mediaContent (fetchMediaContent user activeTab r st) ! i)
            = Some (item_id (mediaData ! i)
                      \<in> set (case user of None \<Rightarrow> []
                              | Some uid \<Rightarrow> viewer_rows (userLikesReply r))))"
proof -
  have m: "mediaContent (fetchMediaContent user activeTab r st) =
      enrichedData mediaData None
       (case user of None \<Rightarrow> [] | Some uid \<Rightarrow> viewer_rows (userLikesReply r))
       (case user of None \<Rightarrow> [] | Some uid \<Rightarrow> viewer_rows (userFollowsReply r))"
    using fetch_rows_content [OF assms(1,2), of user activeTab] by (simp add: assms(3))
  have c1: "error (fetchMediaContent user activeTab r st) = None"
    using fetch_error_flag [OF assms(1), of user activeTab r] by (simp add: assms(2))
  have c2: "\<not> fetchInProgressRef (fetchMediaContent user activeTab r st)"
    using fetch_releases_marker [OF assms(1)] by blast
  have c3: "length (mediaContent (fetchMediaContent user activeTab r st)) = length mediaData"
    by (simp add: m enrichedData_def)
  have c4: "likes_count (mediaContent (fetchMediaContent user activeTab r st) ! i)
            = Some (or_zero (likes_count (mediaData ! i)))
        \<and> is_liked (mediaContent (fetchMediaContent user activeTab r st) ! i)
            = Some (item_id (mediaData ! i)
                      \<in> set (case user of None \<Rightarrow> []
                              | Some uid \<Rightarrow> viewer_rows (userLikesReply r)))"
    if "i < length mediaData" for i
    using that by (simp add: m enrichedData_def or_empty_def enrich_empty_count)
  show ?thesis
  proof (intro conjI allI impI)
    show "error (fetchMediaContent user activeTab r st) = None" by (rule c1)
    show "\<not> fetchInProgressRef (fetchMediaContent user activeTab r st)" by (rule c2)
    show "length (mediaContent (fetchMediaContent user activeTab r st)) = length mediaData"
      by (rule c3)
  qed (simp_all only: c4)
qed

theorem likes_read_failure_tolerated_witness:
  "\<not> fetchInProgressRef initial_state
   \<and> mediaReply replies_likes_failed = Rows [item_a, item_b5]
   \<and> allLikesReply replies_likes_failed = Failed ''permission denied''
   \<and> error (fetchMediaContent (Some ''u1'') ''stream'' replies_likes_failed initial_state) = None
   \<and> likes_count (mediaContent (fetchMediaContent (Some ''u1'') ''stream'' replies_likes_failed initial_state) ! 0) = Some 0
   \<and> is_liked (mediaContent (fetchMediaContent (Some ''u1'') ''stream'' replies_likes_failed initial_state) ! 0) = Some True
   \<and> likes_count (mediaContent (fetchMediaContent (Some ''u1'') ''stream'' replies_likes_failed initial_state) ! 1) = Some 5
   \<and> is_liked (mediaContent (fetchMediaContent (Some ''u1'') ''stream'' replies_likes_failed initial_state) ! 1) = Some False"
proof -
  have h1: "\<not> fetchInProgressRef initial_state" by (simp add: initial_state_def)
  have h2: "mediaReply replies_likes_failed = Rows [item_a, item_b5]"
    by (simp add: replies_likes_failed_def)
  have h3: "allLikesReply replies_likes_failed = Failed ''permission denied''"
    by (simp add: replies_likes_failed_def)
  have u: "userLikesReply replies_likes_failed = Rows [''a'']"
    by (simp add: replies_likes_failed_def)
  note t = likes_read_failure_tolerated [OF h1 h2 h3, of "Some ''u1''" "''stream''"]
  from t have "error (fetchMediaContent (Some ''u1'') ''stream'' replies_likes_failed initial_state) = None"
    by blast
  moreover from t have "likes_count (mediaContent (fetchMediaContent (Some ''u1'') ''stream'' replies_likes_failed initial_state) ! 0) = Some 0
   \<and> is_liked (mediaContent (fetchMediaContent (Some ''u1'') ''stream'' replies_likes_failed initial_state) ! 0) = Some True"
    by (simp add: u viewer_rows_def or_empty_def item_a_def)
  moreover from t have "likes_count (mediaContent (fetchMediaContent (Some ''u1'') ''stream'' replies_likes_failed initial_state) ! 1) = Some 5
   \<and> is_liked (mediaContent (fetchMediaContent (Some ''u1'') ''stream'' replies_likes_failed initial_state) ! 1) = Some False"
    by (simp add: u viewer_rows_def or_empty_def item_a_def item_b5_def)
  ultimately show ?thesis using h1 h2 h3 by blast
qed

section \<open>Facts about the handlers\<close>

lemma find_distinct_at:
  "distinct (map f xs) \<Longrightarrow> i < length xs \<Longrightarrow> f (xs ! i) = k \<Longrightarrow>
   find (\<lambda>m. f m = k) xs = Some (xs ! i)"
proof (induction xs arbitrary: i)
  case Nil
  then show ?case by simp
next
  case (Cons x xs)
  show ?case
  proof (cases i)
    case 0
    with Cons.prems show ?thesis by simp
  next
    case (Suc j)
    with Cons.prems have "f x \<noteq> k" by (auto simp: image_iff)
    with Cons Suc show ?thesis by simp
  qed
qed

lemma map_patch_distinct_at:
  "distinct (map f xs) \<Longrightarrow> i < length xs \<Longrightarrow> f (xs ! i) = k \<Longrightarrow>
   map (\<lambda>m. if f m = k then g m else m) xs = xs[i := g (xs ! i)]"
proof (induction xs arbitrary: i)
  case Nil
  then show ?case by simp
next
  case (Cons x xs)
  show ?case
  proof (cases i)
    case 0
    with Cons.prems have "\<forall>y \<in> set xs. f y \<noteq> k" by (auto simp: image_iff)
    then have "map (\<lambda>m. if f m = k then g m else m) xs = xs"
      by (induction xs) auto
    with 0 Cons.prems show ?thesis by simp
  next
    case (Suc j)
    with Cons.prems have "f x \<noteq> k" by (auto simp: image_iff)
    with Cons Suc show ?thesis by simp
  qed
qed

lemma find_absent:
  "k \<notin> f ` set xs \<Longrightarrow> find (\<lambda>m. f m = k) xs = None"
  by (induction xs) auto

lemma handleLike_begin_at:
  assumes "distinct (map item_id (mediaContent st))"
    and "i < length (mediaContent st)"
    and "mediaContent st ! i = m"
    and "item_id m = mediaId"
  shows "handleLike_begin (Some uid) mediaId st =
     (st\<lparr>mediaContent :=
           (mediaContent st)[i := m\<lparr>is_liked := Some (\<not> truthy_bool (is_liked m)),
                                     likes_count :=
                                       Some (if truthy_bool (is_liked m)
                                             then max 0 (or_zero (likes_count m) - 1)
                                             else or_zero (likes_count m) + 1)\<rparr>],
         effects := effects st @ [if truthy_bool (is_liked m) then DeleteLike mediaId uid
                                  else InsertLike mediaId uid]\<rparr>,
      Some (mediaContent st))"
proof -
  have k: "item_id (mediaContent st ! i) = mediaId" using assms(3,4) by simp
  have f: "find (\<lambda>m. item_id m = mediaId) (mediaContent st) = Some m"
    using find_distinct_at [OF assms(1,2) k] assms(3) by simp
  have p: "like_patch mediaId (is_liked m) (mediaContent st) =
      (mediaContent st)[i := m\<lparr>is_liked := Some (\<not> truthy_bool (is_liked m)),
                                     likes_count :=
                                       Some (if truthy_bool (is_liked m)
                                             then max 0 (or_zero (likes_count m) - 1)
                                             else or_zero (likes_count m) + 1)\<rparr>]"
    unfolding like_patch_def
    using map_patch_distinct_at [OF assms(1,2) k,
        of "\<lambda>m'. m'\<lparr>is_liked := Some (\<not> truthy_bool (is_liked m)),
                     likes_count := Some (if truthy_bool (is_liked m)
                                          then max 0 (or_zero (likes_count m') - 1)
                                          else or_zero (likes_count m') + 1)\<rparr>"]
    by (simp add: assms(3))
  show ?thesis
    by (simp add: handleLike_begin_def f p Let_def issue_def)
qed

lemma handleLike_ok:
  "handleLike user mediaId WriteOk st = fst (handleLike_begin user mediaId st)"
  by (simp add: handleLike_def handleLike_settle_def split: prod.splits option.splits)

lemma handleLike_begin_snapshot:
  "handleLike_begin user mediaId st = (st1, Some snap) \<Longrightarrow> snap = mediaContent st"
  by (auto simp add: handleLike_begin_def Let_def split: option.splits if_splits)

lemma handleFollow_begin_snapshot:
  "handleFollow_begin user creatorName st = (st1, Some snap) \<Longrightarrow> snap = mediaContent st"
  by (auto simp add: handleFollow_begin_def Let_def split: option.splits if_splits)

lemma handleLike_begin_none:
  "handleLike_begin user mediaId st = (st1, None) \<Longrightarrow> mediaContent st1 = mediaContent st"
  by (auto simp add: handleLike_begin_def Let_def issue_def split: option.splits if_splits)

lemma handleFollow_begin_none:
  "handleFollow_begin user creatorName st = (st1, None) \<Longrightarrow> mediaContent st1 = mediaContent st"
  by (auto simp add: handleFollow_begin_def Let_def issue_def split: option.splits if_splits)

lemma handleLike_settle_failed [simp]:
  "mediaContent (handleLike_settle snap (WriteFailed e) st2) = snap"
  "error (handleLike_settle snap (WriteFailed e) st2)
     = Some ''Failed to update like. Please try again.''"
  by (simp_all add: handleLike_settle_def issue_def)

lemma handleFollow_settle_failed [simp]:
  "mediaContent (handleFollow_settle snap (WriteFailed e) st2) = snap"
  "error (handleFollow_settle snap (WriteFailed e) st2)
     = Some ''Failed to update follow status. Please try again.''"
  by (simp_all add: handleFollow_settle_def issue_def)

lemma handleLike_failed_content:
  "mediaContent (handleLike user mediaId (WriteFailed e) st) = mediaContent st"
proof (cases "handleLike_begin user mediaId st")
  case (Pair st1 k)
  show ?thesis
  proof (cases k)
    case None
    with Pair show ?thesis by (simp add: handleLike_def handleLike_begin_none)
  next
    case (Some snap)
    with Pair show ?thesis by (simp add: handleLike_def handleLike_begin_snapshot)
  qed
qed

lemma handleFollow_failed_content:
  "mediaContent (handleFollow user creatorName (WriteFailed e) st) = mediaContent st"
proof (cases "handleFollow_begin user creatorName st")
  case (Pair st1 k)
  show ?thesis
  proof (cases k)
    case None
    with Pair show ?thesis by (simp add: handleFollow_def handleFollow_begin_none)
  next
    case (Some snap)
    with Pair show ?thesis by (simp add: handleFollow_def handleFollow_begin_snapshot)
  qed
qed

section \<open>Claim C5: the optimistic like patch\<close>

text \<open>
  C5. For a signed-in viewer and an item \<open>m\<close> of the collection (item ids are distinct:
  they are the primary key of the content table) with count \<open>c\<close> (\<open>0\<close> when the counter is
  missing), the synchronous part of \<^verbatim>\<open>handleLike\<close> leaves the page, at its \<^verbatim>\<open>await\<close> of
  the durable write, as follows. When \<open>m\<close> was liked, \<open>m\<close> is replaced in place by \<open>m\<close>
  with \<^verbatim>\<open>is_liked = false\<close> and the count \<open>max 0 (c - 1)\<close>, and the delete of the like edge
  has been issued. When \<open>m\<close> was not liked (flag \<^verbatim>\<open>false\<close> or missing), \<open>m\<close> is replaced by
  \<open>m\<close> with \<^verbatim>\<open>is_liked = true\<close> and the count \<open>c + 1\<close>, and the insert has been issued. In
  both cases every other item is untouched, the write has not been answered, and the
  captured snapshot is the collection before the patch. The witness evaluates the
  scenario of the specification (count 2, not liked, becomes count 3, liked), an unlike
  (count 4, liked, becomes count 3, not liked) and an unlike at the floor (count 0, liked,
  stays at count 0, not liked).
\<close>

theorem optimistic_like_patch:
  assumes "distinct (map item_id (mediaContent st))"
    and "i < length (mediaContent st)"
    and "mediaContent st ! i = m"
    and "item_id m = mediaId"
    and "c = (case likes_count m of None \<Rightarrow> 0 | Some n \<Rightarrow> n)"
  shows "(is_liked m = Some True \<longrightarrow>
           handleLike_begin (Some uid) mediaId st =
             (st\<lparr>mediaContent :=
                   (mediaContent st)[i := m\<lparr>is_liked := Some False,
                                             likes_count := Some (max 0 (c - 1))\<rparr>],
                 effects := effects st @ [DeleteLike mediaId uid]\<rparr>,
              Some (mediaContent st)))
    \<and> (is_liked m \<noteq> Some True \<longrightarrow>
           handleLike_begin (Some uid) mediaId st =
             (st\<lparr>mediaContent :=
                   (mediaContent st)[i := m\<lparr>is_liked := Some True,
                                             likes_count := Some (c + 1)\<rparr>],
                 effects := effects st @ [InsertLike mediaId uid]\<rparr>,
              Some (mediaContent st)))"
proof -
  have z: "or_zero (likes_count m) = c"
    using assms(5) by (cases "likes_count m") simp_all
  note b = handleLike_begin_at [OF assms(1-4), of uid]
  show ?thesis
  proof (intro conjI impI)
    assume "is_liked m = Some True"
    then have "truthy_bool (is_liked m)" by (simp add: truthy_bool_def)
    with b z show "handleLike_begin (Some uid) mediaId st =
             (st\<lparr>mediaContent :=
                   (mediaContent st)[i := m\<lparr>is_liked := Some False,
                                             likes_count := Some (max 0 (c - 1))\<rparr>],
                 effects := effects st @ [DeleteLike mediaId uid]\<rparr>,
              Some (mediaContent st))"
      by simp
  next
    assume "is_liked m \<noteq> Some True"
    then have "\<not> truthy_bool (is_liked m)"
      by (cases "is_liked m") (simp_all add: truthy_bool_def)
    with b z show "handleLike_begin (Some uid) mediaId st =
             (st\<lparr>mediaContent :=
                   (mediaContent st)[i := m\<lparr>is_liked := Some True,
                                             likes_count := Some (c + 1)\<rparr>],
                 effects := effects st @ [InsertLike mediaId uid]\<rparr>,
              Some (mediaContent st))"
      by simp
  qed
qed

theorem optimistic_like_patch_witness:
  "handleLike_begin (Some ''u1'') ''a'' loaded_state =
       (loaded_state\<lparr>mediaContent := [item_a2\<lparr>is_liked := Some True, likes_count := Some 3\<rparr>],
                     effects := [InsertLike ''a'' ''u1'']\<rparr>,
        Some [item_a2])
   \<and> likes_count item_a2 = Some 2 \<and> is_liked item_a2 = Some False
   \<and> handleLike_begin (Some ''u1'') ''e'' three_items_state =
       (three_items_state
          \<lparr>mediaContent := [item_c_followed,
                            item_e_other\<lparr>is_liked := Some False, likes_count := Some 3\<rparr>,
                            item_d_followed],
           effects := [DeleteLike ''e'' ''u1'']\<rparr>,
        Some [item_c_followed, item_e_other, item_d_followed])
   \<and> likes_count item_e_other = Some 4 \<and> is_liked item_e_other = Some True
   \<and> handleLike_begin (Some ''u1'') ''a'' liked_uncounted_state =
       (liked_uncounted_state
          \<lparr>mediaContent := [item_a_liked0\<lparr>is_liked := Some False, likes_count := Some 0\<rparr>],
           effects := [DeleteLike ''a'' ''u1'']\<rparr>,
        Some [item_a_liked0])
   \<and> likes_count item_a_liked0 = Some 0 \<and> is_liked item_a_liked0 = Some True"
proof -
  have a1: "distinct (map item_id (mediaContent loaded_state))"
    by (simp add: loaded_state_def)
  have a2: "0 < length (mediaContent loaded_state)" by (simp add: loaded_state_def)
  have a3: "mediaContent loaded_state ! 0 = item_a2" by (simp add: loaded_state_def)
  have a4: "item_id item_a2 = ''a''" by (simp add: item_a2_def)
  have a5: "(2::int) = (case likes_count item_a2 of None \<Rightarrow> 0 | Some n \<Rightarrow> n)"
    by (simp add: item_a2_def)
  have av: "likes_count item_a2 = Some 2 \<and> is_liked item_a2 = Some False"
    by (simp add: item_a2_def)
  from optimistic_like_patch [OF a1 a2 a3 a4 a5, of "''u1''"] av
  have r1: "handleLike_begin (Some ''u1'') ''a'' loaded_state =
       (loaded_state\<lparr>mediaContent := [item_a2\<lparr>is_liked := Some True, likes_count := Some 3\<rparr>],
                     effects := [InsertLike ''a'' ''u1'']\<rparr>,
        Some [item_a2])"
    by (simp add: loaded_state_def)
  have e1: "distinct (map item_id (mediaContent three_items_state))"
    by (simp add: three_items_state_def item_c_followed_def item_e_other_def item_d_followed_def)
  have e2: "1 < length (mediaContent three_items_state)" by (simp add: three_items_state_def)
  have e3: "mediaContent three_items_state ! 1 = item_e_other"
    by (simp add: three_items_state_def)
  have e4: "item_id item_e_other = ''e''" by (simp add: item_e_other_def)
  have e5: "(4::int) = (case likes_count item_e_other of None \<Rightarrow> 0 | Some n \<Rightarrow> n)"
    by (simp add: item_e_other_def)
  have ev: "likes_count item_e_other = Some 4 \<and> is_liked item_e_other = Some True"
    by (simp add: item_e_other_def)
  from optimistic_like_patch [OF e1 e2 e3 e4 e5, of "''u1''"] ev
  have r2: "handleLike_begin (Some ''u1'') ''e'' three_items_state =
       (three_items_state
          \<lparr>mediaContent := [item_c_followed,
                            item_e_other\<lparr>is_liked := Some False, likes_count := Some 3\<rparr>,
                            item_d_followed],
           effects := [DeleteLike ''e'' ''u1'']\<rparr>,
        Some [item_c_followed, item_e_other, item_d_followed])"
    by (simp add: three_items_state_def)
  have z1: "distinct (map item_id (mediaContent liked_uncounted_state))"
    by (simp add: liked_uncounted_state_def)
  have z2: "0 < length (mediaContent liked_uncounted_state)"
    by (simp add: liked_uncounted_state_def)
  have z3: "mediaContent liked_uncounted_state ! 0 = item_a_liked0"
    by (simp add: liked_uncounted_state_def)
  have z4: "item_id item_a_liked0 = ''a''" by (simp add: item_a_liked0_def)
  have z5: "(0::int) = (case likes_count item_a_liked0 of None \<Rightarrow> 0 | Some n \<Rightarrow> n)"
    by (simp add: item_a_liked0_def)
  have zv: "likes_count item_a_liked0 = Some 0 \<and> is_liked item_a_liked0 = Some True"
    by (simp add: item_a_liked0_def)
  from optimistic_like_patch [OF z1 z2 z3 z4 z5, of "''u1''"] zv
  have r3: "handleLike_begin (Some ''u1'') ''a'' liked_uncounted_state =
       (liked_uncounted_state
          \<lparr>mediaContent := [item_a_liked0\<lparr>is_liked := Some False, likes_count := Some 0\<rparr>],
           effects := [DeleteLike ''a'' ''u1'']\<rparr>,
        Some [item_a_liked0])"
    by (simp add: liked_uncounted_state_def)
  from r1 av r2 ev r3 zv show ?thesis by blast
qed

section \<open>Claim C6: toggling like twice\<close>

text \<open>
  C6, as stated, says that two successive toggles give the item its original flag and
  count back. The decrement is floored at \<open>0\<close>, the increment is not: an item the viewer has
  liked whose count is \<open>0\<close> ends with the count \<open>1\<close>. Such an item is what a fetch cycle
  stores when the read of all like edges fails, the stored counter is missing and the
  viewer's own like read succeeds (\<open>liked_uncounted_is_fetched\<close>).
\<close>

theorem C6_counterexample:
  "likes_count (mediaContent (handleLike (Some ''u1'') ''a'' WriteOk
                   (handleLike (Some ''u1'') ''a'' WriteOk liked_uncounted_state)) ! 0)
     \<noteq> likes_count (mediaContent liked_uncounted_state ! 0)"
  by (simp add: example_defs handler_defs)

lemma liked_uncounted_is_fetched:
  "mediaContent (fetchMediaContent (Some ''u1'') ''stream'' replies_liked_uncounted initial_state)
     = mediaContent liked_uncounted_state"
  by (simp add: example_defs fetch_defs)

text \<open>
  C6, amended. For a signed-in viewer and an item of the collection (distinct ids), two
  successive toggles whose durable writes both succeed give the item its original
  \<^verbatim>\<open>is_liked\<close> back and leave every other item untouched; its \<^verbatim>\<open>likes_count\<close> is the
  original one provided the original count was at least \<open>1\<close> when the item was liked, and
  at least \<open>0\<close> when it was not. In general the count ends at \<open>max 0 (c - 1) + 1\<close> for a
  liked item and at \<open>max 0 c\<close> for one that was not liked.
\<close>

theorem double_like_toggle:
  assumes "distinct (map item_id (mediaContent st))"
    and "i < length (mediaContent st)"
    and "mediaContent st ! i = m"
    and "item_id m = mediaId"
  shows "mediaContent (handleLike (Some uid) mediaId WriteOk
                         (handleLike (Some uid) mediaId WriteOk st)) =
     (mediaContent st)[i := m\<lparr>is_liked := Some (truthy_bool (is_liked m)),
                               likes_count :=
                                 Some (if truthy_bool (is_liked m)
                                       then max 0 (or_zero (likes_count m) - 1) + 1
                                       else max 0 (or_zero (likes_count m)))\<rparr>]
    \<and> is_liked (mediaContent (handleLike (Some uid) mediaId WriteOk
                         (handleLike (Some uid) mediaId WriteOk st)) ! i)
         = Some (truthy_bool (is_liked m))
    \<and> ((if truthy_bool (is_liked m) then 1 \<le> or_zero (likes_count m)
         else 0 \<le> or_zero (likes_count m)) \<longrightarrow>
        likes_count (mediaContent (handleLike (Some uid) mediaId WriteOk
                         (handleLike (Some uid) mediaId WriteOk st)) ! i)
          = Some (or_zero (likes_count m)))"
proof -
  define m1 where "m1 = m\<lparr>is_liked := Some (\<not> truthy_bool (is_liked m)),
                           likes_count := Some (if truthy_bool (is_liked m)
                                                then max 0 (or_zero (likes_count m) - 1)
                                                else or_zero (likes_count m) + 1)\<rparr>"
  define st1 where "st1 = handleLike (Some uid) mediaId WriteOk st"
  have s1: "mediaContent st1 = (mediaContent st)[i := m1]"
    unfolding st1_def m1_def handleLike_ok
    by (simp add: handleLike_begin_at [OF assms])
  have d1: "distinct (map item_id (mediaContent st1))"
  proof -
    have "map item_id ((mediaContent st)[i := m1])
        = (map item_id (mediaContent st))[i := item_id m1]"
      by (rule map_update)
    also have "\<dots> = (map item_id (mediaContent st))[i := map item_id (mediaContent st) ! i]"
      using assms(2) by (simp add: m1_def assms(3))
    also have "\<dots> = map item_id (mediaContent st)"
      by (rule list_update_id)
    finally have "map item_id (mediaContent st1) = map item_id (mediaContent st)"
      by (simp only: s1)
    with assms(1) show ?thesis by simp
  qed
  have l1: "i < length (mediaContent st1)" using assms(2) by (simp add: s1)
  have n1: "mediaContent st1 ! i = m1" using assms(2) by (simp add: s1)
  have k1: "item_id m1 = mediaId" by (simp add: m1_def assms(4))
  have s2: "mediaContent (handleLike (Some uid) mediaId WriteOk st1) =
      (mediaContent st1)[i := m1\<lparr>is_liked := Some (\<not> truthy_bool (is_liked m1)),
                                     likes_count :=
                                       Some (if truthy_bool (is_liked m1)
                                             then max 0 (or_zero (likes_count m1) - 1)
                                             else or_zero (likes_count m1) + 1)\<rparr>]"
    unfolding handleLike_ok by (simp add: handleLike_begin_at [OF d1 l1 n1 k1])
  have e: "m1\<lparr>is_liked := Some (\<not> truthy_bool (is_liked m1)),
              likes_count := Some (if truthy_bool (is_liked m1)
                                   then max 0 (or_zero (likes_count m1) - 1)
                                   else or_zero (likes_count m1) + 1)\<rparr>
      = m\<lparr>is_liked := Some (truthy_bool (is_liked m)),
           likes_count := Some (if truthy_bool (is_liked m)
                                then max 0 (or_zero (likes_count m) - 1) + 1
                                else max 0 (or_zero (likes_count m)))\<rparr>"
    by (simp add: m1_def truthy_bool_def)
  have c: "mediaContent (handleLike (Some uid) mediaId WriteOk st1) =
     (mediaContent st)[i := m\<lparr>is_liked := Some (truthy_bool (is_liked m)),
                               likes_count :=
                                 Some (if truthy_bool (is_liked m)
                                       then max 0 (or_zero (likes_count m) - 1) + 1
                                       else max 0 (or_zero (likes_count m)))\<rparr>]"
    by (simp add: s2 e s1)
  show ?thesis
    unfolding st1_def [symmetric] c using assms(2) by (simp add: max_def)
qed

theorem double_like_toggle_witness:
  "distinct (map item_id (mediaContent loaded_state))
   \<and> mediaContent loaded_state ! 0 = item_a2
   \<and> is_liked (mediaContent (handleLike (Some ''u1'') ''a'' WriteOk
                    (handleLike (Some ''u1'') ''a'' WriteOk loaded_state)) ! 0) = Some False
   \<and> likes_count (mediaContent (handleLike (Some ''u1'') ''a'' WriteOk
                    (handleLike (Some ''u1'') ''a'' WriteOk loaded_state)) ! 0) = Some 2"
proof -
  have h1: "distinct (map item_id (mediaContent loaded_state))"
    by (simp add: loaded_state_def)
  have h2: "0 < length (mediaContent loaded_state)" by (simp add: loaded_state_def)
  have h3: "mediaContent loaded_state ! 0 = item_a2" by (simp add: loaded_state_def)
  have h4: "item_id item_a2 = ''a''" by (simp add: item_a2_def)
  have v: "likes_count item_a2 = Some 2" "is_liked item_a2 = Some False"
    by (simp_all add: item_a2_def)
  from double_like_toggle [OF h1 h2 h3 h4, of "''u1''", THEN conjunct2]
  have "is_liked (mediaContent (handleLike (Some ''u1'') ''a'' WriteOk
                    (handleLike (Some ''u1'') ''a'' WriteOk loaded_state)) ! 0) = Some False
   \<and> likes_count (mediaContent (handleLike (Some ''u1'') ''a'' WriteOk
                    (handleLike (Some ''u1'') ''a'' WriteOk loaded_state)) ! 0) = Some 2"
    by (simp add: v truthy_bool_def)
  with h1 h3 show ?thesis by blast
qed

section \<open>Claim C3: rollback after a failed durable write\<close>

text \<open>
  C3. When the durable write of \<^verbatim>\<open>handleLike\<close> or \<^verbatim>\<open>handleFollow\<close> fails, the item
  collection is the one the handler started from, whole and unchanged. Whenever the
  handler got as far as its optimistic patch, the snapshot it captured is the collection
  before the patch, the error message is set, and the code after the \<^verbatim>\<open>await\<close> restores
  that snapshot and sets the message whatever the state has become in between.
\<close>

theorem failed_write_restores_snapshot:
  "mediaContent (handleLike user mediaId (WriteFailed e) st) = mediaContent st
   \<and> mediaContent (handleFollow user creatorName (WriteFailed e) st) = mediaContent st
   \<and> (handleLike_begin user mediaId st = (st1, Some snap) \<longrightarrow>
        snap = mediaContent st
        \<and> error (handleLike user mediaId (WriteFailed e) st)
              = Some ''Failed to update like. Please try again.''
        \<and> (\<forall>st2. mediaContent (handleLike_settle snap (WriteFailed e) st2) = mediaContent st
                 \<and> error (handleLike_settle snap (WriteFailed e) st2)
                       = Some ''Failed to update like. Please try again.''))
   \<and> (handleFollow_begin user creatorName st = (st1', Some snap') \<longrightarrow>
        snap' = mediaContent st
        \<and> error (handleFollow user creatorName (WriteFailed e) st)
              = Some ''Failed to update follow status. Please try again.''
        \<and> (\<forall>st2. mediaContent (handleFollow_settle snap' (WriteFailed e) st2) = mediaContent st
                 \<and> error (handleFollow_settle snap' (WriteFailed e) st2)
                       = Some ''Failed to update follow status. Please try again.''))"
proof (intro conjI impI allI)
  show "mediaContent (handleLike user mediaId (WriteFailed e) st) = mediaContent st"
    by (rule handleLike_failed_content)
  show "mediaContent (handleFollow user creatorName (WriteFailed e) st) = mediaContent st"
    by (rule handleFollow_failed_content)
next
  assume b: "handleLike_begin user mediaId st = (st1, Some snap)"
  then show s: "snap = mediaContent st" by (rule handleLike_begin_snapshot)
  show "error (handleLike user mediaId (WriteFailed e) st)
          = Some ''Failed to update like. Please try again.''"
    by (simp add: handleLike_def b)
  fix st2
  show "mediaContent (handleLike_settle snap (WriteFailed e) st2) = mediaContent st"
    by (simp add: s)
  show "error (handleLike_settle snap (WriteFailed e) st2)
          = Some ''Failed to update like. Please try again.''"
    by simp
next
  assume b: "handleFollow_begin user creatorName st = (st1', Some snap')"
  then show s: "snap' = mediaContent st" by (rule handleFollow_begin_snapshot)
  show "error (handleFollow user creatorName (WriteFailed e) st)
          = Some ''Failed to update follow status. Please try again.''"
    by (simp add: handleFollow_def b)
  fix st2
  show "mediaContent (handleFollow_settle snap' (WriteFailed e) st2) = mediaContent st"
    by (simp add: s)
  show "error (handleFollow_settle snap' (WriteFailed e) st2)
          = Some ''Failed to update follow status. Please try again.''"
    by simp
qed

theorem failed_write_restores_snapshot_witness:
  "handleLike_begin (Some ''u1'') ''a'' loaded_state =
     (loaded_state\<lparr>mediaContent := [item_a2\<lparr>is_liked := Some True, likes_count := Some 3\<rparr>],
                   effects := [InsertLike ''a'' ''u1'']\<rparr>,
      Some [item_a2])
   \<and> mediaContent loaded_state = [item_a2]
   \<and> mediaContent (handleLike (Some ''u1'') ''a'' (WriteFailed ''timeout'') loaded_state) = [item_a2]
   \<and> error (handleLike (Some ''u1'') ''a'' (WriteFailed ''timeout'') loaded_state)
         = Some ''Failed to update like. Please try again.''
   \<and> handleFollow_begin (Some ''u1'') ''Jo'' three_items_state =
     (three_items_state\<lparr>mediaContent := [item_c_followed\<lparr>is_following := Some False\<rparr>,
                                          item_e_other,
                                          item_d_followed\<lparr>is_following := Some False\<rparr>],
                        effects := [DeleteFollow ''Jo'' ''u1'']\<rparr>,
      Some [item_c_followed, item_e_other, item_d_followed])
   \<and> mediaContent (handleFollow (Some ''u1'') ''Jo'' (WriteFailed ''timeout'') three_items_state)
         = [item_c_followed, item_e_other, item_d_followed]
   \<and> error (handleFollow (Some ''u1'') ''Jo'' (WriteFailed ''timeout'') three_items_state)
         = Some ''Failed to update follow status. Please try again.''"
proof -
  have b1: "handleLike_begin (Some ''u1'') ''a'' loaded_state =
     (loaded_state\<lparr>mediaContent := [item_a2\<lparr>is_liked := Some True, likes_count := Some 3\<rparr>],
                   effects := [InsertLike ''a'' ''u1'']\<rparr>,
      Some [item_a2])"
    by (simp add: example_defs handler_defs)
  have b2: "handleFollow_begin (Some ''u1'') ''Jo'' three_items_state =
     (three_items_state\<lparr>mediaContent := [item_c_followed\<lparr>is_following := Some False\<rparr>,
                                          item_e_other,
                                          item_d_followed\<lparr>is_following := Some False\<rparr>],
                        effects := [DeleteFollow ''Jo'' ''u1'']\<rparr>,
      Some [item_c_followed, item_e_other, item_d_followed])"
    by (simp add: example_defs handler_defs)
  have c1: "mediaContent loaded_state = [item_a2]" by (simp add: loaded_state_def)
  have c2: "mediaContent three_items_state = [item_c_followed, item_e_other, item_d_followed]"
    by (simp add: three_items_state_def)
  note t = failed_write_restores_snapshot [of "Some ''u1''" "''a''" "''timeout''" loaded_state]
  note u = failed_write_restores_snapshot [of "Some ''u1''" _ "''timeout''" three_items_state "''Jo''"]
  from t [of _ _ "[item_a2]"] b1 c1
  have r1: "mediaContent (handleLike (Some ''u1'') ''a'' (WriteFailed ''timeout'') loaded_state) = [item_a2]
   \<and> error (handleLike (Some ''u1'') ''a'' (WriteFailed ''timeout'') loaded_state)
         = Some ''Failed to update like. Please try again.''"
    by simp
  from u [of _ _ _ _ "[item_c_followed, item_e_other, item_d_followed]"] b2 c2
  have r2: "mediaContent (handleFollow (Some ''u1'') ''Jo'' (WriteFailed ''timeout'') three_items_state)
         = [item_c_followed, item_e_other, item_d_followed]
   \<and> error (handleFollow (Some ''u1'') ''Jo'' (WriteFailed ''timeout'') three_items_state)
         = Some ''Failed to update follow status. Please try again.''"
    by simp
  from b1 b2 c1 r1 r2 show ?thesis by blast
qed

section \<open>Claim C9: a target that is not in the collection\<close>

text \<open>
  C9, as stated, says that \<^verbatim>\<open>handleLike\<close> with an item id that no item of the collection
  has is a complete no-op that surfaces no error, for any viewer. Without a signed-in
  viewer the handler returns before the lookup, after the sign-in alert and the
  navigation to \<^verbatim>\<open>/signin\<close>: the state after the call is not the state before it.
\<close>

theorem C9_counterexample:
  "''zz'' \<notin> item_id ` set (mediaContent loaded_state)
   \<and> handleLike None ''zz'' WriteOk loaded_state \<noteq> loaded_state
   \<and> effects loaded_state = []
   \<and> effects (handleLike None ''zz'' WriteOk loaded_state)
       = [Alert ''Please sign in to like content.'', Navigate ''/signin'']"
  by (simp add: example_defs handler_defs)

text \<open>
  C9, amended. For a signed-in viewer, \<^verbatim>\<open>handleLike\<close> with an item id that no item of the
  collection has, and \<^verbatim>\<open>handleFollow\<close> with a creator name that no item carries, return
  before the optimistic patch: the whole state (collection, loading and error flags,
  marker, issued effects) is unchanged, whatever the outcome a durable write would have
  had, and the handler does not reach its \<^verbatim>\<open>await\<close>.
\<close>

theorem absent_target_is_noop:
  "(mediaId \<notin> item_id ` set (mediaContent st) \<longrightarrow>
      handleLike_begin (Some uid) mediaId st = (st, None)
      \<and> handleLike (Some uid) mediaId res st = st)
   \<and> (creatorName \<notin> creator_name ` set (mediaContent st) \<longrightarrow>
      handleFollow_begin (Some uid) creatorName st = (st, None)
      \<and> handleFollow (Some uid) creatorName res st = st)"
  by (simp add: handleLike_def handleLike_begin_def handleFollow_def handleFollow_begin_def
      find_absent)

theorem absent_target_is_noop_witness:
  "''zz'' \<notin> item_id ` set (mediaContent loaded_state)
   \<and> ''Nobody'' \<notin> creator_name ` set (mediaContent loaded_state)
   \<and> handleLike_begin (Some ''u1'') ''zz'' loaded_state = (loaded_state, None)
   \<and> handleLike (Some ''u1'') ''zz'' (WriteFailed ''timeout'') loaded_state = loaded_state
   \<and> handleFollow_begin (Some ''u1'') ''Nobody'' loaded_state = (loaded_state, None)
   \<and> handleFollow (Some ''u1'') ''Nobody'' (WriteFailed ''timeout'') loaded_state = loaded_state"
proof -
  have h1: "''zz'' \<notin> item_id ` set (mediaContent loaded_state)"
    by (simp add: loaded_state_def item_a2_def)
  have h2: "''Nobody'' \<notin> creator_name ` set (mediaContent loaded_state)"
    by (simp add: loaded_state_def item_a2_def)
  from absent_target_is_noop [where mediaId = "''zz''" and st = loaded_state and uid = "''u1''"
      and res = "WriteFailed ''timeout''" and creatorName = "''Nobody''"]
    h1 h2 show ?thesis by blast
qed

section \<open>Facts about the follow flags\<close>


















section \<open>Claim C8: items of one creator agree on the follow flag\<close>



section \<open>Facts about the suspended fetch\<close>

lemma fetch_start_busy:
  "fetchInProgressRef st \<Longrightarrow> fetch_start activeTab st = (st, None)"
  by (simp add: fetch_start_def)

lemma fetch_start_idle:
  "\<not> fetchInProgressRef st \<Longrightarrow>
   fetch_start activeTab st =
     (issue (SelectMediaContent activeTab)
        (st\<lparr>fetchInProgressRef := True, loading := True, error := None\<rparr>),
      Some AwaitMedia)"
  by (simp add: fetch_start_def)

lemma read_cycles_append [simp]:
  "read_cycles (es @ es') = read_cycles es + read_cycles es'"
  by (simp add: read_cycles_def)

lemma read_cycles_single [simp]:
  "read_cycles [SelectMediaContent t] = 1"
  "read_cycles [SelectAllLikes] = 0"
  "read_cycles [SelectUserLikes u] = 0"
  "read_cycles [SelectUserFollows u] = 0"
  "read_cycles [ConsoleError x] = 0"
  "read_cycles [] = 0"
  by (simp_all add: read_cycles_def)

lemma state_fields [simp]:
  "fetchInProgressRef (issue c st) = fetchInProgressRef st"
  "loading (issue c st) = loading st"
  "effects (issue c st) = effects st @ [c]"
  "fetchInProgressRef (finally_fetch st) = False"
  "loading (finally_fetch st) = False"
  "effects (finally_fetch st) = effects st"
  "effects (catch_fetch e st) = effects st @ [ConsoleError ''Error fetching media:'']"
  by (simp_all add: issue_def finally_fetch_def catch_fetch_def)

lemma fetch_resume_done:
  "fetch_resume user k rep st = (st', None) \<Longrightarrow>
   \<not> fetchInProgressRef st' \<and> \<not> loading st'"
  by (cases k; cases rep) (auto simp add: Let_def split: option.splits if_splits)

lemma fetch_resume_wait:
  "fetch_resume user k rep st = (st', Some k') \<Longrightarrow>
   fetchInProgressRef st' = fetchInProgressRef st"
  by (cases k; cases rep) (auto simp add: Let_def split: option.splits if_splits)

lemma fetch_resume_no_read:
  "read_cycles (effects (fst (fetch_resume user k rep st))) = read_cycles (effects st)"
  by (cases k; cases rep) (auto simp add: Let_def split: option.splits if_splits)

lemma trigger_busy:
  "fetchInProgressRef (store p) \<Longrightarrow> page_step user activeTab Trigger p = p"
  by (simp add: fetch_start_busy)

lemma trigger_idle:
  "\<not> fetchInProgressRef (store p) \<Longrightarrow>
   page_step user activeTab Trigger p =
     p\<lparr>store := issue (SelectMediaContent activeTab)
                   ((store p)\<lparr>fetchInProgressRef := True, loading := True, error := None\<rparr>),
       in_flight := in_flight p @ [AwaitMedia]\<rparr>"
  by (simp add: fetch_start_idle)

lemma guard_inv_step:
  assumes "guard_inv p"
  shows "guard_inv (page_step user activeTab ev p)"
proof (cases ev)
  case Trigger
  show ?thesis
  proof (cases "fetchInProgressRef (store p)")
    case True
    with Trigger assms show ?thesis by (simp add: trigger_busy del: page_step.simps)
  next
    case False
    with assms have "in_flight p = []" by (simp add: guard_inv_def)
    with False Trigger show ?thesis
      by (simp add: trigger_idle guard_inv_def del: page_step.simps)
  qed
next
  case (Deliver i rep)
  show ?thesis
  proof (cases "i < length (in_flight p)")
    case False
    with Deliver assms show ?thesis by simp
  next
    case True
    with assms have i0: "i = 0" and len: "length (in_flight p) = 1"
      and busy: "fetchInProgressRef (store p)"
      by (auto simp add: guard_inv_def)
    from len obtain k where k: "in_flight p = [k]"
      by (cases "in_flight p") simp_all
    show ?thesis
    proof (cases "fetch_resume user k rep (store p)")
      case (Pair st' nxt)
      show ?thesis
      proof (cases nxt)
        case None
        with Pair have "\<not> fetchInProgressRef st'" by (simp add: fetch_resume_done)
        with Pair None Deliver i0 k show ?thesis by (simp add: guard_inv_def)
      next
        case (Some k')
        with Pair have "fetchInProgressRef st' = fetchInProgressRef (store p)"
          by (simp add: fetch_resume_wait)
        with busy Pair Some Deliver i0 k show ?thesis by (simp add: guard_inv_def)
      qed
    qed
  qed
qed

lemma guard_inv_run:
  "guard_inv p \<Longrightarrow> guard_inv (run_page user activeTab evs p)"
  unfolding run_page_def
  by (induction evs arbitrary: p) (simp_all add: guard_inv_step)

lemma step_busy_no_read:
  assumes "fetchInProgressRef (store p)"
  shows "read_cycles (effects (store (page_step user activeTab ev p)))
           = read_cycles (effects (store p))"
proof (cases ev)
  case Trigger
  with assms show ?thesis by (simp add: trigger_busy del: page_step.simps)
next
  case (Deliver i rep)
  show ?thesis
  proof (cases "i < length (in_flight p)")
    case False
    with Deliver show ?thesis by simp
  next
    case True
    have "store (page_step user activeTab (Deliver i rep) p)
            = fst (fetch_resume user (in_flight p ! i) rep (store p))"
      using True by (simp split: prod.splits option.splits)
    with Deliver show ?thesis by (simp add: fetch_resume_no_read)
  qed
qed

lemma run_busy_no_read:
  "stays_in_flight user activeTab evs p \<Longrightarrow>
   read_cycles (effects (store (run_page user activeTab evs p)))
     = read_cycles (effects (store p))
   \<and> fetchInProgressRef (store (run_page user activeTab evs p))"
  unfolding run_page_def
proof (induction evs arbitrary: p)
  case Nil
  then show ?case by simp
next
  case (Cons ev evs)
  from Cons.prems have b: "fetchInProgressRef (store p)"
    and r: "stays_in_flight user activeTab evs (page_step user activeTab ev p)"
    by simp_all
  from Cons.IH [OF r] step_busy_no_read [OF b, of user activeTab ev]
  show ?case by simp
qed

lemma run_after_trigger:
  assumes idle: "in_flight p = []" "\<not> fetchInProgressRef (store p)"
    and stay: "stays_in_flight user activeTab evs (page_step user activeTab Trigger p)"
  shows "read_cycles (effects (store (run_page user activeTab (Trigger # evs) p)))
           = read_cycles (effects (store p)) + 1
    \<and> length (in_flight (run_page user activeTab (Trigger # evs) p)) = 1"
proof -
  let ?p1 = "page_step user activeTab Trigger p"
  have r: "run_page user activeTab (Trigger # evs) p = run_page user activeTab evs ?p1"
    by (simp add: run_page_def)
  have c1: "read_cycles (effects (store ?p1)) = read_cycles (effects (store p)) + 1"
    using idle(2) by (simp add: trigger_idle del: page_step.simps)
  have g: "guard_inv p" using idle by (simp add: guard_inv_def)
  have g': "guard_inv (run_page user activeTab evs ?p1)"
    by (rule guard_inv_run [OF guard_inv_step [OF g]])
  from run_busy_no_read [OF stay] g' c1 show ?thesis
    unfolding r by (auto simp add: guard_inv_def le_Suc_eq)
qed

lemma run_to_completion:
  assumes "in_flight p = []" and "\<not> fetchInProgressRef (store p)"
  shows "run_page user activeTab
           [Trigger, Deliver 0 (MediaReply (mediaReply r)), Deliver 0 (EdgeReply (allLikesReply r)),
            Deliver 0 (EdgeReply (userLikesReply r)), Deliver 0 (EdgeReply (userFollowsReply r))] p
         = p\<lparr>store := fetchMediaContent user activeTab r (store p)\<rparr>"
proof (cases "mediaReply r")
  case (Failed e)
  with assms show ?thesis
    by (simp add: run_page_def fetch_start_def fetchMediaContent_def Let_def)
next
  case NoData
  with assms show ?thesis
    by (simp add: run_page_def fetch_start_def fetchMediaContent_def Let_def)
next
  case (Rows mediaData)
  show ?thesis
  proof (cases mediaData)
    case Nil
    with Rows assms show ?thesis
      by (simp add: run_page_def fetch_start_def fetchMediaContent_def Let_def)
  next
    case (Cons x xs)
    show ?thesis
    proof (cases user)
      case None
      with Cons Rows assms show ?thesis
        by (simp add: run_page_def fetch_start_def fetchMediaContent_def Let_def
            split: option.splits)
    next
      case (Some uid)
      with Cons Rows assms show ?thesis
        by (simp add: run_page_def fetch_start_def fetchMediaContent_def Let_def
            split: option.splits)
    qed
  qed
qed

section \<open>Claim C4: the fetch guard\<close>

text \<open>
  C4. A call of \<^verbatim>\<open>fetchMediaContent\<close> made while the marker is set returns at once and
  changes nothing. From an idle page, one call followed by any events during which the
  fetch stays in flight (further calls, replies that do not finish it) issues exactly one
  content read, and exactly one call is suspended; on every run at most one call is
  suspended and the marker is set exactly when one is. Every way the suspended call can
  finish (failure, no rows, rows enriched) clears the marker and the loading flag, the
  fetch cycle as a whole always ends with the marker clear, and delivering the four
  replies to the suspended call finishes it with the result of the cycle, so a later call
  is accepted again.
\<close>

theorem fetch_guard:
  "(fetchInProgressRef (store p) \<longrightarrow>
      page_step user activeTab Trigger p = p
      \<and> fetchMediaContent user activeTab r (store p) = store p)
   \<and> (in_flight p = [] \<and> \<not> fetchInProgressRef (store p)
        \<and> stays_in_flight user activeTab evs (page_step user activeTab Trigger p) \<longrightarrow>
      read_cycles (effects (store (run_page user activeTab (Trigger # evs) p)))
        = read_cycles (effects (store p)) + 1
      \<and> length (in_flight (run_page user activeTab (Trigger # evs) p)) = 1)
   \<and> (guard_inv p \<longrightarrow> guard_inv (run_page user activeTab evs p))
   \<and> (fetch_resume user k rep st = (st', None) \<longrightarrow>
      \<not> fetchInProgressRef st' \<and> \<not> loading st')
   \<and> (\<not> fetchInProgressRef st \<longrightarrow>
      \<not> fetchInProgressRef (fetchMediaContent user activeTab r st))
   \<and> (in_flight p = [] \<and> \<not> fetchInProgressRef (store p) \<longrightarrow>
      run_page user activeTab
        [Trigger, Deliver 0 (MediaReply (mediaReply r)), Deliver 0 (EdgeReply (allLikesReply r)),
         Deliver 0 (EdgeReply (userLikesReply r)), Deliver 0 (EdgeReply (userFollowsReply r))] p
      = p\<lparr>store := fetchMediaContent user activeTab r (store p)\<rparr>)"
proof (intro conjI impI)
  assume "fetchInProgressRef (store p)"
  then show "page_step user activeTab Trigger p = p"
    and "fetchMediaContent user activeTab r (store p) = store p"
    by (simp_all add: fetch_start_busy fetchMediaContent_def)
next
  assume a: "in_flight p = [] \<and> \<not> fetchInProgressRef (store p)
        \<and> stays_in_flight user activeTab evs (page_step user activeTab Trigger p)"
  then have "read_cycles (effects (store (run_page user activeTab (Trigger # evs) p)))
           = read_cycles (effects (store p)) + 1
    \<and> length (in_flight (run_page user activeTab (Trigger # evs) p)) = 1"
    by (intro run_after_trigger) blast+
  then show "read_cycles (effects (store (run_page user activeTab (Trigger # evs) p)))
        = read_cycles (effects (store p)) + 1"
    and "length (in_flight (run_page user activeTab (Trigger # evs) p)) = 1"
    by simp_all
next
  assume "guard_inv p"
  then show "guard_inv (run_page user activeTab evs p)" by (rule guard_inv_run)
next
  assume "fetch_resume user k rep st = (st', None)"
  then show "\<not> fetchInProgressRef st'" and "\<not> loading st'"
    by (simp_all add: fetch_resume_done)
next
  assume "\<not> fetchInProgressRef st"
  then show "\<not> fetchInProgressRef (fetchMediaContent user activeTab r st)"
    by (simp add: fetch_releases_marker)
next
  assume "in_flight p = [] \<and> \<not> fetchInProgressRef (store p)"
  then show "run_page user activeTab
        [Trigger, Deliver 0 (MediaReply (mediaReply r)), Deliver 0 (EdgeReply (allLikesReply r)),
         Deliver 0 (EdgeReply (userLikesReply r)), Deliver 0 (EdgeReply (userFollowsReply r))] p
      = p\<lparr>store := fetchMediaContent user activeTab r (store p)\<rparr>"
    by (intro run_to_completion) blast+
qed

theorem fetch_guard_witness:
  "in_flight idle_page = [] \<and> \<not> fetchInProgressRef (store idle_page)
   \<and> guard_inv idle_page
   \<and> stays_in_flight (Some ''u1'') ''stream''
         [Trigger, Deliver 0 (MediaReply (Rows [item_a])), Trigger]
         (page_step (Some ''u1'') ''stream'' Trigger idle_page)
   \<and> read_cycles (effects (store (run_page (Some ''u1'') ''stream''
         [Trigger, Trigger, Deliver 0 (MediaReply (Rows [item_a])), Trigger] idle_page))) = 1
   \<and> length (in_flight (run_page (Some ''u1'') ''stream''
         [Trigger, Trigger, Deliver 0 (MediaReply (Rows [item_a])), Trigger] idle_page)) = 1
   \<and> fetch_resume (Some ''u1'') AwaitMedia (MediaReply (Failed ''network''))
         (store (page_step (Some ''u1'') ''stream'' Trigger idle_page))
       = (finally_fetch (catch_fetch ''network''
            (store (page_step (Some ''u1'') ''stream'' Trigger idle_page))), None)
   \<and> \<not> fetchInProgressRef (finally_fetch (catch_fetch ''network''
            (store (page_step (Some ''u1'') ''stream'' Trigger idle_page))))
   \<and> \<not> fetchInProgressRef (fetchMediaContent (Some ''u1'') ''stream'' replies_failed initial_state)
   \<and> run_page (Some ''u1'') ''stream''
        [Trigger, Deliver 0 (MediaReply (mediaReply replies_failed)),
         Deliver 0 (EdgeReply (allLikesReply replies_failed)),
         Deliver 0 (EdgeReply (userLikesReply replies_failed)),
         Deliver 0 (EdgeReply (userFollowsReply replies_failed))] idle_page
      = idle_page\<lparr>store := fetchMediaContent (Some ''u1'') ''stream'' replies_failed
                               (store idle_page)\<rparr>"
proof -
  have i1: "in_flight idle_page = []" by (simp add: idle_page_def)
  have i2: "\<not> fetchInProgressRef (store idle_page)"
    by (simp add: idle_page_def initial_state_def)
  have i3: "\<not> fetchInProgressRef initial_state" by (simp add: initial_state_def)
  have g: "guard_inv idle_page" using i1 i2 by (simp add: guard_inv_def)
  have s: "stays_in_flight (Some ''u1'') ''stream''
         [Trigger, Deliver 0 (MediaReply (Rows [item_a])), Trigger]
         (page_step (Some ''u1'') ''stream'' Trigger idle_page)"
    by (simp add: idle_page_def initial_state_def fetch_start_def)
  have f: "fetch_resume (Some ''u1'') AwaitMedia (MediaReply (Failed ''network''))
         (store (page_step (Some ''u1'') ''stream'' Trigger idle_page))
       = (finally_fetch (catch_fetch ''network''
            (store (page_step (Some ''u1'') ''stream'' Trigger idle_page))), None)"
    by simp
  note t = fetch_guard [where p = idle_page and user = "Some ''u1''" and activeTab = "''stream''"
      and evs = "[Trigger, Deliver 0 (MediaReply (Rows [item_a])), Trigger]"
      and k = AwaitMedia and rep = "MediaReply (Failed ''network'')"
      and st = "store (page_step (Some ''u1'') ''stream'' Trigger idle_page)"
      and st' = "finally_fetch (catch_fetch ''network''
            (store (page_step (Some ''u1'') ''stream'' Trigger idle_page)))"
      and r = replies_failed]
  note u = fetch_guard [where st = initial_state and user = "Some ''u1''"
      and activeTab = "''stream''" and r = replies_failed]
  have e0: "read_cycles (effects (store idle_page)) = 0"
    by (simp add: idle_page_def initial_state_def read_cycles_def)
  from t i1 i2 s e0
  have r1: "read_cycles (effects (store (run_page (Some ''u1'') ''stream''
         [Trigger, Trigger, Deliver 0 (MediaReply (Rows [item_a])), Trigger] idle_page))) = 1
   \<and> length (in_flight (run_page (Some ''u1'') ''stream''
         [Trigger, Trigger, Deliver 0 (MediaReply (Rows [item_a])), Trigger] idle_page)) = 1"
    by simp
  from t f
  have r2: "\<not> fetchInProgressRef (finally_fetch (catch_fetch ''network''
            (store (page_step (Some ''u1'') ''stream'' Trigger idle_page))))"
    by blast
  from u i3
  have r3: "\<not> fetchInProgressRef (fetchMediaContent (Some ''u1'') ''stream'' replies_failed initial_state)"
    by blast
  from t i1 i2
  have r4: "run_page (Some ''u1'') ''stream''
        [Trigger, Deliver 0 (MediaReply (mediaReply replies_failed)),
         Deliver 0 (EdgeReply (allLikesReply replies_failed)),
         Deliver 0 (EdgeReply (userLikesReply replies_failed)),
         Deliver 0 (EdgeReply (userFollowsReply replies_failed))] idle_page
      = idle_page\<lparr>store := fetchMediaContent (Some ''u1'') ''stream'' replies_failed
                               (store idle_page)\<rparr>"
    by blast
  from i1 i2 g s r1 f r2 r3 r4 show ?thesis by blast
qed

end
